theory Spec2Isabelle
  imports Main
begin

section \<open>Cursor paging (internal/paging)\<close>

text \<open>
  The Go type \<^verbatim>\<open>Order\<close> is an \<^verbatim>\<open>int\<close> with the constants
  \<^verbatim>\<open>OrderAscending = 1\<close> and \<^verbatim>\<open>OrderDescending = 2\<close> (the value 0 is "no order").
  Keys are values of a comparable type with a zero value; the type class \<open>zero\<close>
  supplies the zero value of the key type.
\<close>

type_synonym Order = int

definition OrderAscending :: Order where
  "OrderAscending = 1"

definition OrderDescending :: Order where
  "OrderDescending = 2"

definition Ascending :: "Order \<Rightarrow> bool" where
  "Ascending i = (i = OrderAscending)"

definition Descending :: "Order \<Rightarrow> bool" where
  "Descending i = (i = OrderDescending)"

record 'a Boundary =
  Name :: string
  Value :: 'a
  Order :: Order

record 'a Page =
  Page_Min :: "'a Boundary"
  Page_Max :: "'a Boundary"
  Limit :: int

text \<open>
  Modelled from the spec: the helper \<^verbatim>\<open>zero(v)\<close> of the paging package is not among the
  sources; the spec calls its true case "the zero value" ("unset/zero"), so it is the
  comparison of \<open>v\<close> with the zero value of the key type.
\<close>

definition zero :: "'a::zero \<Rightarrow> bool" where
  "zero v = (v = 0)"

text \<open>The zero value of \<^verbatim>\<open>Boundary[T]\<close>, as \<^verbatim>\<open>new(Page[T])\<close> leaves both boundaries.\<close>

definition zero_Boundary :: "'a::zero Boundary" where
  "zero_Boundary = \<lparr>Name = [], Value = 0, Order = 0\<rparr>"

text \<open>\<^verbatim>\<open>Boundary.New\<close>: same name and order, new value.\<close>

definition New :: "'a Boundary \<Rightarrow> 'a \<Rightarrow> 'a Boundary" where
  "New b v = \<lparr>Name = Name b, Value = v, Order = Order b\<rparr>"

text \<open>The loop of \<^verbatim>\<open>Boundary.Find\<close>: the first index holding the value, or -1.\<close>

fun find_loop :: "'a \<Rightarrow> 'a list \<Rightarrow> int \<Rightarrow> int" where
  "find_loop v [] i = -1"
| "find_loop v (x # xs) i = (if x = v then i else find_loop v xs (i + 1))"

definition Find :: "'a::zero Boundary \<Rightarrow> 'a list \<Rightarrow> int" where
  "Find b inp = (if zero (Value b) then -1 else find_loop (Value b) inp 0)"

definition order :: "'a Page \<Rightarrow> Order" where
  "order p =
     (if Order (Page_Min p) \<noteq> 0 then Order (Page_Min p)
      else if Order (Page_Max p) \<noteq> 0 then Order (Page_Max p)
      else 0)"

text \<open>
  The in-place reversal of \<^verbatim>\<open>PageAsc\<close> and \<^verbatim>\<open>PageDesc\<close>: two indices walk towards each
  other and swap. It runs on a clone of the slice, so the input is not changed. The
  indices are naturals: the loop is entered only with \<open>len(in) > 1\<close>, and \<open>j\<close> is
  decremented only while \<open>i < j\<close>.
\<close>

function swap_loop :: "'a list \<Rightarrow> nat \<Rightarrow> nat \<Rightarrow> 'a list" where
  "swap_loop xs i j =
     (if i < j then swap_loop (xs[i := xs ! j, j := xs ! i]) (i + 1) (j - 1) else xs)"
  by pat_completeness auto
termination
  by (relation "measure (\<lambda>(xs, i, j). j - i)") auto

declare swap_loop.simps [simp del]

definition reverse_clone :: "'a list \<Rightarrow> 'a list" where
  "reverse_clone xs = swap_loop xs 0 (length xs - 1)"

text \<open>The final reslice to the limit, shared by both paging functions.\<close>

definition reslice_limit :: "int \<Rightarrow> 'a list \<Rightarrow> 'a list" where
  "reslice_limit l xs = (if l > 0 \<and> l < int (length xs) then take (nat l) xs else xs)"

text \<open>\<^verbatim>\<open>Page.PageAsc\<close>; the page is a pointer, \<open>None\<close> is the nil page.\<close>

definition PageAsc :: "'a::zero Page option \<Rightarrow> 'a list \<Rightarrow> 'a list" where
  "PageAsc p inp =
     (case p of
        None \<Rightarrow> inp
      | Some p \<Rightarrow>
          (let minIdx = Find (Page_Min p) inp;
               in1 = (if minIdx \<noteq> -1 then drop (nat (minIdx + 1)) inp else inp);
               maxIdx = Find (Page_Max p) in1;
               in2 = (if maxIdx \<noteq> -1 then take (nat maxIdx) in1 else in1);
               in3 = (if Descending (order p) \<and> length in2 > 1 then reverse_clone in2 else in2)
           in reslice_limit (Limit p) in3))"

text \<open>\<^verbatim>\<open>Page.PageDesc\<close>: the maximum is searched first, then the minimum.\<close>

definition PageDesc :: "'a::zero Page option \<Rightarrow> 'a list \<Rightarrow> 'a list" where
  "PageDesc p inp =
     (case p of
        None \<Rightarrow> inp
      | Some p \<Rightarrow>
          (let maxIdx = Find (Page_Max p) inp;
               in1 = (if maxIdx \<noteq> -1 then drop (nat (maxIdx + 1)) inp else inp);
               minIdx = Find (Page_Min p) in1;
               in2 = (if minIdx \<noteq> -1 then take (nat minIdx) in1 else in1);
               in3 = (if Ascending (order p) \<and> length in2 > 1 then reverse_clone in2 else in2)
           in reslice_limit (Limit p) in3))"

text \<open>\<^verbatim>\<open>Page.Next\<close> and \<^verbatim>\<open>Page.Prev\<close>: a fresh page, or nil.\<close>

definition Next :: "'a::zero Page option \<Rightarrow> 'a \<Rightarrow> 'a Page option" where
  "Next p mx =
     (case p of
        None \<Rightarrow> None
      | Some p \<Rightarrow>
          if zero mx then None
          else Some \<lparr>Page_Min = zero_Boundary, Page_Max = New (Page_Max p) mx, Limit = Limit p\<rparr>)"

definition Prev :: "'a::zero Page option \<Rightarrow> 'a \<Rightarrow> 'a Page option" where
  "Prev p mn =
     (case p of
        None \<Rightarrow> None
      | Some p \<Rightarrow>
          if zero mn then None
          else Some \<lparr>Page_Min = New (Page_Min p) mn, Page_Max = zero_Boundary, Limit = Limit p\<rparr>)"

subsection \<open>The paging contract in the words of the specification\<close>

text \<open>
  The specification describes paging as: locate the boundary values in the input by exact
  match, reslice strictly between them, reverse if the requested order disagrees with the
  order of the input, truncate to the limit. A boundary is located at the first index
  holding its value; it is not located when its value is the zero value or does not occur.
\<close>

definition first_index :: "'a \<Rightarrow> 'a list \<Rightarrow> nat" where
  "first_index v xs = length (takeWhile (\<lambda>x. x \<noteq> v) xs)"

definition locate :: "'a::zero \<Rightarrow> 'a list \<Rightarrow> nat option" where
  "locate v xs = (if zero v \<or> v \<notin> set xs then None else Some (first_index v xs))"

text \<open>
  \<open>slice_between a b xs\<close>: the part of \<open>xs\<close> after the position of \<open>a\<close> and before the
  position of \<open>b\<close>, both positions taken in \<open>xs\<close> itself; an unlocated boundary imposes
  no bound on its side.
\<close>

definition slice_between :: "'a::zero \<Rightarrow> 'a \<Rightarrow> 'a list \<Rightarrow> 'a list" where
  "slice_between a b xs =
     (let ys = (case locate b xs of None \<Rightarrow> xs | Some j \<Rightarrow> take j xs)
      in case locate a xs of None \<Rightarrow> ys | Some i \<Rightarrow> drop (Suc i) ys)"

definition truncate_spec :: "int \<Rightarrow> 'a list \<Rightarrow> 'a list" where
  "truncate_spec l xs = (if l > 0 then take (nat l) xs else xs)"

definition PageAsc_spec :: "'a::zero Page \<Rightarrow> 'a list \<Rightarrow> 'a list" where
  "PageAsc_spec p xs =
     truncate_spec (Limit p)
       ((if order p = OrderDescending then rev else id)
          (slice_between (Value (Page_Min p)) (Value (Page_Max p)) xs))"

definition PageDesc_spec :: "'a::zero Page \<Rightarrow> 'a list \<Rightarrow> 'a list" where
  "PageDesc_spec p xs =
     truncate_spec (Limit p)
       ((if order p = OrderAscending then rev else id)
          (slice_between (Value (Page_Max p)) (Value (Page_Min p)) xs))"

text \<open>
  The side condition under which the code meets this contract: when both boundaries are
  located in the input, the minimum value is below the maximum value.
\<close>

definition min_before_max :: "'a::{zero,linorder} Page \<Rightarrow> 'a list \<Rightarrow> bool" where
  "min_before_max p xs =
     (locate (Value (Page_Min p)) xs = None \<or> locate (Value (Page_Max p)) xs = None
      \<or> Value (Page_Min p) < Value (Page_Max p))"

subsection \<open>The paging round trip of the specification\<close>

text \<open>
  The client loop of the round-trip property (section 8 of the specification): page the
  whole sequence, derive the continuation with \<^verbatim>\<open>Next\<close> from the last element of the page
  returned, page the whole sequence again, and stop when \<^verbatim>\<open>Next\<close> is nil. An empty page
  has no last element; the candidate is then the zero value, as a Go variable that was
  never assigned. The loop may a priori run forever, so it carries fuel, and \<open>None\<close> is
  "out of fuel". The result is the list of the pages returned.
\<close>

definition last_or_zero :: "'a::zero list \<Rightarrow> 'a" where
  "last_or_zero xs = (if xs = [] then 0 else last xs)"

fun enumerate_pages ::
  "('a::zero Page option \<Rightarrow> 'a list \<Rightarrow> 'a list) \<Rightarrow> nat \<Rightarrow> 'a Page \<Rightarrow> 'a list \<Rightarrow> 'a list list option" where
  "enumerate_pages pager 0 p xs = None"
| "enumerate_pages pager (Suc n) p xs =
     (let pg = pager (Some p) xs
      in case Next (Some p) (last_or_zero pg) of
           None \<Rightarrow> Some [pg]
         | Some p' \<Rightarrow> map_option ((#) pg) (enumerate_pages pager n p' xs))"

text \<open>The page \<^verbatim>\<open>Page{Limit: l}\<close>: a limit and no boundaries.\<close>

definition first_Page :: "int \<Rightarrow> 'a::zero Page" where
  "first_Page l = \<lparr>Page_Min = zero_Boundary, Page_Max = zero_Boundary, Limit = l\<rparr>"

text \<open>Pages of the enumeration: no minimum, no order, the maximum is the cursor.\<close>

definition cursor_page :: "int \<Rightarrow> 'a::zero Page \<Rightarrow> bool" where
  "cursor_page l p =
     (Value (Page_Min p) = 0 \<and> Order (Page_Min p) = 0 \<and> Order (Page_Max p) = 0 \<and> Limit p = l)"

text \<open>Concrete pages over integer keys, for the examples below.\<close>

definition since_2_max_5 :: "int Page" where
  "since_2_max_5 =
     \<lparr>Page_Min = \<lparr>Name = ''since_id'', Value = 2, Order = OrderDescending\<rparr>,
      Page_Max = \<lparr>Name = ''max_id'', Value = 5, Order = 0\<rparr>, Limit = 2\<rparr>"

definition min_1_max_5 :: "int Page" where
  "min_1_max_5 =
     \<lparr>Page_Min = \<lparr>Name = ''min_id'', Value = 1, Order = OrderAscending\<rparr>,
      Page_Max = \<lparr>Name = ''max_id'', Value = 5, Order = 0\<rparr>, Limit = 2\<rparr>"

definition min_4_max_2 :: "int Page" where
  "min_4_max_2 =
     \<lparr>Page_Min = \<lparr>Name = ''min_id'', Value = 4, Order = OrderAscending\<rparr>,
      Page_Max = \<lparr>Name = ''max_id'', Value = 2, Order = 0\<rparr>, Limit = 0\<rparr>"

section \<open>The federation dispatcher (internal/processing/workers/fromfediapi.go)\<close>

subsection \<open>Errors\<close>

text \<open>
  A Go \<^verbatim>\<open>error\<close> is a value. \<^verbatim>\<open>gtserror.New\<close> and \<^verbatim>\<open>gtserror.Newf\<close> build a
  \<^verbatim>\<open>cerror\<close>: the name of the calling function, the formatted text, and the error wrapped
  by \<^verbatim>\<open>%w\<close> if there is one. \<open>ErrNoEntries\<close> is the storage layer's "no entries" sentinel.
\<close>

datatype error =
    ErrNoEntries
  | ErrorString string
  | Cerror string string "error option"

definition gtserror_New :: "string \<Rightarrow> string \<Rightarrow> error" where
  "gtserror_New caller msg = Cerror caller msg None"

definition gtserror_Newf :: "string \<Rightarrow> string \<Rightarrow> error \<Rightarrow> error" where
  "gtserror_Newf caller msg err = Cerror caller msg (Some err)"

text \<open>\<^verbatim>\<open>errors.Is(err, db.ErrNoEntries)\<close>: the sentinel anywhere in the chain of wrapped errors.\<close>

fun is_ErrNoEntries :: "error \<Rightarrow> bool" where
  "is_ErrNoEntries ErrNoEntries = True"
| "is_ErrNoEntries (ErrorString s) = False"
| "is_ErrNoEntries (Cerror c m None) = False"
| "is_ErrNoEntries (Cerror c m (Some e)) = is_ErrNoEntries e"

subsection \<open>The models a message carries\<close>

text \<open>
  The declarations of package \<^verbatim>\<open>gtsmodel\<close> are not among the sources; each record has the
  fields the sources read or write. The pointers of an account are heap addresses,
  since the account cache copies them (section on the account cache): the two media
  attachments, and \<^verbatim>\<open>Locked\<close>, a \<^verbatim>\<open>*bool\<close> that \<^verbatim>\<open>CreateFollowReq\<close> dereferences. Elsewhere a
  \<^verbatim>\<open>*bool\<close> is a \<open>bool option\<close>.
\<close>

type_synonym addr = nat

record Account =
  ID :: string
  URI :: string
  URL :: string
  Username :: string
  Locked :: "addr option"
  AvatarMediaAttachment :: "addr option"
  HeaderMediaAttachment :: "addr option"

record Mention =
  TargetAccountID :: string

record Status =
  Status_ID :: string
  Status_URI :: string
  Local :: "bool option"
  AccountID :: string
  ThreadID :: string
  InReplyToID :: string
  BoostOfID :: string
  Mentions :: "Mention list"
  PendingApproval :: "bool option"
  PreApproved :: bool

record StatusFave =
  StatusID :: string
  Fave_PendingApproval :: "bool option"
  Fave_PreApproved :: bool

record Block =
  Block_AccountID :: string
  Block_TargetAccountID :: string

record InteractionApproval =
  Approval_URI :: string

text \<open>An \<^verbatim>\<open>ap.Statusable\<close>, as far as the handler looks into it: its JSON-LD id.\<close>

record Statusable =
  JSONLDId :: string

text \<open>
  \<^verbatim>\<open>fMsg.APObject\<close> and \<^verbatim>\<open>fMsg.GTSModel\<close> are interface values: nil, or a value of some
  dynamic type, which the handlers test with a type assertion.
\<close>

datatype ap_object = AP_Statusable Statusable | AP_Other string

datatype Model =
    Model_nil
  | Model_Status Status
  | Model_StatusFave StatusFave
  | Model_Block Block
  | Model_Account Account
  | Model_Other string

text \<open>The text of \<^verbatim>\<open>%T\<close> for such a value.\<close>

fun Model_type :: "Model \<Rightarrow> string" where
  "Model_type Model_nil = ''<nil>''"
| "Model_type (Model_Status s) = ''*gtsmodel.Status''"
| "Model_type (Model_StatusFave f) = ''*gtsmodel.StatusFave''"
| "Model_type (Model_Block b) = ''*gtsmodel.Block''"
| "Model_type (Model_Account a) = ''*gtsmodel.Account''"
| "Model_type (Model_Other t) = t"

fun ap_object_type :: "ap_object \<Rightarrow> string" where
  "ap_object_type (AP_Statusable s) = ''ap.Statusable''"
| "ap_object_type (AP_Other t) = t"

record FromFediAPI =
  APObjectType :: string
  APActivityType :: string
  APIRI :: "string option"
  APObject :: "ap_object option"
  GTSModel :: Model
  Requesting :: Account
  Receiving :: Account

text \<open>
  Modelled from the spec: the constants of package \<^verbatim>\<open>ap\<close> are not among the sources; the
  spec names the verb tags (Create, Update, Accept, Delete, Move) and the object-type
  tags (Note, Person, Follow, Like, Announce, Block, Flag, Question).
\<close>

definition ActivityCreate :: string where "ActivityCreate = ''Create''"
definition ActivityUpdate :: string where "ActivityUpdate = ''Update''"
definition ActivityAccept :: string where "ActivityAccept = ''Accept''"
definition ActivityDelete :: string where "ActivityDelete = ''Delete''"
definition ActivityMove :: string where "ActivityMove = ''Move''"
definition ActivityFollow :: string where "ActivityFollow = ''Follow''"
definition ActivityLike :: string where "ActivityLike = ''Like''"
definition ActivityAnnounce :: string where "ActivityAnnounce = ''Announce''"
definition ActivityBlock :: string where "ActivityBlock = ''Block''"
definition ActivityFlag :: string where "ActivityFlag = ''Flag''"
definition ActivityQuestion :: string where "ActivityQuestion = ''Question''"
definition ObjectNote :: string where "ObjectNote = ''Note''"
definition ActorPerson :: string where "ActorPerson = ''Person''"

subsection \<open>Effects\<close>

text \<open>
  A handler works through its collaborators (storage, federator, surface, utilities,
  timelines) and the log. None of them is among the sources, so a handler's effect is the
  sequence of calls it makes and of lines it logs, in order; what each call returns is
  given by an environment. A handler returns its error (\<open>None\<close> is nil) and that trace.
\<close>

datatype timeline = Timelines_Home | Timelines_List

datatype event =
    Call_RefreshStatus string Status Statusable
  | Call_GetStatusByURI string string
  | Call_notifyPendingReply Status
  | Call_approveReply Status
  | Call_AcceptInteraction InteractionApproval
  | Call_incrementStatusesCount Account Status
  | Call_invalidateStatusFromTimelines string
  | Call_timelineAndNotifyStatus Status
  | Call_PopulateStatusFave StatusFave
  | Call_notifyPendingFave StatusFave
  | Call_approveFave StatusFave
  | Call_notifyFave StatusFave
  | Call_EnrichAnnounce Status string
  | Call_notifyPendingAnnounce Status
  | Call_approveAnnounce Status
  | Call_notifyAnnounce Status
  | Call_WipeItemsFromAccountID timeline string string
  | Call_DeleteFollow string string
  | Call_DeleteFollowRequest string string
  | Log_Info string
  | Log_Debug string error
  | Log_Error string error

type_synonym result = "error option \<times> event list"

text \<open>
  The environment: the value each collaborator returns. A call that changes the object
  it is given (\<^verbatim>\<open>approveReply\<close> sets the approval on the status, \<^verbatim>\<open>PopulateStatusFave\<close>
  fills the fave in) returns the object as it is afterwards.
\<close>

record env =
  RefreshStatus :: "string \<Rightarrow> Status \<Rightarrow> Statusable \<Rightarrow> error + (Status \<times> Statusable option)"
  GetStatusByURI :: "string \<Rightarrow> string \<Rightarrow> error + (Status \<times> Statusable option)"
  notifyPendingReply :: "Status \<Rightarrow> error option"
  approveReply :: "Status \<Rightarrow> error + (InteractionApproval \<times> Status)"
  AcceptInteraction :: "InteractionApproval \<Rightarrow> error option"
  incrementStatusesCount :: "Account \<Rightarrow> Status \<Rightarrow> error option"
  timelineAndNotifyStatus :: "Status \<Rightarrow> error option"
  PopulateStatusFave :: "StatusFave \<Rightarrow> error + StatusFave"
  notifyPendingFave :: "StatusFave \<Rightarrow> error option"
  approveFave :: "StatusFave \<Rightarrow> error + (InteractionApproval \<times> StatusFave)"
  notifyFave :: "StatusFave \<Rightarrow> error option"
  EnrichAnnounce :: "Status \<Rightarrow> string \<Rightarrow> error + Status"
  IsUnretrievable :: "error \<Rightarrow> bool"
  NotPermitted :: "error \<Rightarrow> bool"
  notifyPendingAnnounce :: "Status \<Rightarrow> error option"
  approveAnnounce :: "Status \<Rightarrow> error + (InteractionApproval \<times> Status)"
  notifyAnnounce :: "Status \<Rightarrow> error option"
  WipeItemsFromAccountID :: "timeline \<Rightarrow> string \<Rightarrow> string \<Rightarrow> error option"
  DeleteFollow :: "string \<Rightarrow> string \<Rightarrow> error option"
  DeleteFollowRequest :: "string \<Rightarrow> string \<Rightarrow> error option"

text \<open>\<^verbatim>\<open>if err := call; err != nil { log.Errorf(ctx, msg, err) }\<close>: the line logged, if any.\<close>

definition log_if_err :: "error option \<Rightarrow> string \<Rightarrow> event list" where
  "log_if_err r msg = (case r of None \<Rightarrow> [] | Some err \<Rightarrow> [Log_Error msg err])"

text \<open>\<^verbatim>\<open>util.PtrOrValue\<close>: the value pointed to, or the default for nil.\<close>

definition PtrOrValue :: "'a option \<Rightarrow> 'a \<Rightarrow> 'a" where
  "PtrOrValue p d = (case p of None \<Rightarrow> d | Some v \<Rightarrow> v)"

text \<open>\<^verbatim>\<open>new(gtsmodel.Status)\<close>: every field at its zero value.\<close>

definition new_Status :: Status where
  "new_Status =
     \<lparr>Status_ID = [], Status_URI = [], Local = None, AccountID = [], ThreadID = [],
      InReplyToID = [], BoostOfID = [], Mentions = [], PendingApproval = None,
      PreApproved = False\<rparr>"

subsection \<open>The handlers\<close>

text \<open>
  \<^verbatim>\<open>fediAPI.CreateStatus\<close>, first part: the \<^verbatim>\<open>switch\<close> that resolves the status, from the
  model on the message (through the bare status with \<^verbatim>\<open>Local\<close> false and the URI of the
  statusable) or from its IRI. \<open>Inl\<close> is the early return with an error; \<open>Inr\<close>
  carries the status and the statusable (\<open>None\<close> is nil) with which the handler goes on.
\<close>

definition bareStatus :: "Statusable \<Rightarrow> Status" where
  "bareStatus statusable = new_Status\<lparr>Local := Some False, Status_URI := JSONLDId statusable\<rparr>"

definition CreateStatus_resolve ::
  "env \<Rightarrow> FromFediAPI \<Rightarrow> (error + (Status \<times> Statusable option)) \<times> event list" where
  "CreateStatus_resolve e fMsg =
     (case APObject fMsg of
        Some obj \<Rightarrow>
          (case obj of
             AP_Statusable statusable \<Rightarrow>
               (let bare = bareStatus statusable;
                    tr = [Call_RefreshStatus (Username (Receiving fMsg)) bare statusable]
                in case RefreshStatus e (Username (Receiving fMsg)) bare statusable of
                     Inl err \<Rightarrow>
                       (Inl (gtserror_Newf ''workers.(*fediAPI).CreateStatus''
                          (''error processing new status '' @ Status_URI bare @ '': '') err), tr)
                   | Inr r \<Rightarrow> (Inr r, tr))
           | AP_Other t \<Rightarrow>
               (Inl (gtserror_New ''workers.(*fediAPI).CreateStatus''
                  (''cannot cast '' @ t @ '' -> ap.Statusable'')), []))
      | None \<Rightarrow>
          (case APIRI fMsg of
             Some iri \<Rightarrow>
               (let tr = [Call_GetStatusByURI (Username (Receiving fMsg)) iri]
                in case GetStatusByURI e (Username (Receiving fMsg)) iri of
                     Inl err \<Rightarrow>
                       (Inl (gtserror_Newf ''workers.(*fediAPI).CreateStatus''
                          (''error dereferencing forwarded status '' @ iri @ '': '') err), tr)
                   | Inr r \<Rightarrow> (Inr r, tr))
           | None \<Rightarrow>
               (Inl (gtserror_New ''workers.(*fediAPI).CreateStatus''
                  ''neither APObjectModel nor APIri set''), [])))"

text \<open>
  Second part: from \<^verbatim>\<open>if statusable == nil\<close> to the end, with the status and the
  statusable the first part resolved.
\<close>

definition CreateStatus_resolved ::
  "env \<Rightarrow> FromFediAPI \<Rightarrow> Status \<Rightarrow> Statusable option \<Rightarrow> result" where
  "CreateStatus_resolved e fMsg status statusable =
     (case statusable of
        None \<Rightarrow> (None, [])
      | Some sa \<Rightarrow>
          (let pendingApproval = PtrOrValue (PendingApproval status) False
           in if pendingApproval \<and> \<not> PreApproved status then
                (None, [Call_notifyPendingReply status]
                       @ log_if_err (notifyPendingReply e status) ''error notifying pending reply: '')
              else
                (case (if pendingApproval \<and> PreApproved status then
                         (case approveReply e status of
                            Inl err \<Rightarrow>
                              (Inl (gtserror_Newf ''workers.(*fediAPI).CreateStatus''
                                 ''error pre-approving reply: '' err), [Call_approveReply status])
                          | Inr (approval, status') \<Rightarrow>
                              (case AcceptInteraction e approval of
                                 Some err \<Rightarrow>
                                   (Inl (gtserror_Newf ''workers.(*fediAPI).CreateStatus''
                                      ''error federating pre-approval of reply: '' err),
                                    [Call_approveReply status, Call_AcceptInteraction approval])
                               | None \<Rightarrow>
                                   (Inr status',
                                    [Call_approveReply status, Call_AcceptInteraction approval])))
                       else (Inr status, [])) of
                   (Inl err, tr) \<Rightarrow> (Some err, tr)
                 | (Inr status, tr) \<Rightarrow>
                     (None,
                      tr @ [Call_incrementStatusesCount (Requesting fMsg) status]
                         @ log_if_err (incrementStatusesCount e (Requesting fMsg) status)
                             ''error updating account stats: ''
                         @ (if InReplyToID status \<noteq> []
                            then [Call_invalidateStatusFromTimelines (InReplyToID status)] else [])
                         @ [Call_timelineAndNotifyStatus status]
                         @ log_if_err (timelineAndNotifyStatus e status)
                             ''error timelining and notifying status: ''))))"

definition CreateStatus :: "env \<Rightarrow> FromFediAPI \<Rightarrow> result" where
  "CreateStatus e fMsg =
     (case CreateStatus_resolve e fMsg of
        (Inl err, tr) \<Rightarrow> (Some err, tr)
      | (Inr (status, statusable), tr) \<Rightarrow>
          (case CreateStatus_resolved e fMsg status statusable of
             (r, tr') \<Rightarrow> (r, tr @ tr')))"

text \<open>\<^verbatim>\<open>fediAPI.CreateLike\<close>.\<close>

definition CreateLike :: "env \<Rightarrow> FromFediAPI \<Rightarrow> result" where
  "CreateLike e fMsg =
     (case GTSModel fMsg of
        Model_StatusFave fave0 \<Rightarrow>
          (case PopulateStatusFave e fave0 of
             Inl err \<Rightarrow>
               (Some (gtserror_Newf ''workers.(*fediAPI).CreateLike''
                  ''error populating status fave: '' err), [Call_PopulateStatusFave fave0])
           | Inr fave \<Rightarrow>
               (let pendingApproval = PtrOrValue (Fave_PendingApproval fave) False;
                    tr0 = [Call_PopulateStatusFave fave0]
                in if pendingApproval \<and> \<not> Fave_PreApproved fave then
                     (None, tr0 @ [Call_notifyPendingFave fave]
                            @ log_if_err (notifyPendingFave e fave) ''error notifying pending fave: '')
                   else
                     (case (if pendingApproval \<and> Fave_PreApproved fave then
                              (case approveFave e fave of
                                 Inl err \<Rightarrow>
                                   (Inl (gtserror_Newf ''workers.(*fediAPI).CreateLike''
                                      ''error pre-approving fave: '' err), [Call_approveFave fave])
                               | Inr (approval, fave') \<Rightarrow>
                                   (case AcceptInteraction e approval of
                                      Some err \<Rightarrow>
                                        (Inl (gtserror_Newf ''workers.(*fediAPI).CreateLike''
                                           ''error federating pre-approval of fave: '' err),
                                         [Call_approveFave fave, Call_AcceptInteraction approval])
                                    | None \<Rightarrow>
                                        (Inr fave',
                                         [Call_approveFave fave, Call_AcceptInteraction approval])))
                            else (Inr fave, [])) of
                        (Inl err, tr) \<Rightarrow> (Some err, tr0 @ tr)
                      | (Inr fave, tr) \<Rightarrow>
                          (None,
                           tr0 @ tr @ [Call_notifyFave fave]
                               @ log_if_err (notifyFave e fave) ''error notifying fave: ''
                               @ [Call_invalidateStatusFromTimelines (StatusID fave)]))))
      | m \<Rightarrow>
          (Some (gtserror_New ''workers.(*fediAPI).CreateLike''
             (Model_type m @ '' not parseable as *gtsmodel.StatusFave'')), []))"

text \<open>\<^verbatim>\<open>fediAPI.CreateAnnounce\<close>.\<close>

definition CreateAnnounce :: "env \<Rightarrow> FromFediAPI \<Rightarrow> result" where
  "CreateAnnounce e fMsg =
     (case GTSModel fMsg of
        Model_Status boost0 \<Rightarrow>
          (let tr0 = [Call_EnrichAnnounce boost0 (Username (Receiving fMsg))]
           in case EnrichAnnounce e boost0 (Username (Receiving fMsg)) of
                Inl err \<Rightarrow>
                  (if IsUnretrievable e err \<or> NotPermitted e err
                   then (None, tr0 @ [Log_Debug ''skipping announce: '' err])
                   else (Some (gtserror_Newf ''workers.(*fediAPI).CreateAnnounce''
                           ''error dereferencing announce: '' err), tr0))
              | Inr boost \<Rightarrow>
                  (let pendingApproval = PtrOrValue (PendingApproval boost) False
                   in if pendingApproval \<and> \<not> PreApproved boost then
                        (None, tr0 @ [Call_notifyPendingAnnounce boost]
                               @ log_if_err (notifyPendingAnnounce e boost)
                                   ''error notifying pending boost: '')
                      else
                        (case (if pendingApproval \<and> PreApproved boost then
                                 (case approveAnnounce e boost of
                                    Inl err \<Rightarrow>
                                      (Inl (gtserror_Newf ''workers.(*fediAPI).CreateAnnounce''
                                         ''error pre-approving boost: '' err),
                                       [Call_approveAnnounce boost])
                                  | Inr (approval, boost') \<Rightarrow>
                                      (case AcceptInteraction e approval of
                                         Some err \<Rightarrow>
                                           (Inl (gtserror_Newf ''workers.(*fediAPI).CreateAnnounce''
                                              ''error federating pre-approval of boost: '' err),
                                            [Call_approveAnnounce boost, Call_AcceptInteraction approval])
                                       | None \<Rightarrow>
                                           (Inr boost',
                                            [Call_approveAnnounce boost, Call_AcceptInteraction approval])))
                               else (Inr boost, [])) of
                           (Inl err, tr) \<Rightarrow> (Some err, tr0 @ tr)
                         | (Inr boost, tr) \<Rightarrow>
                             (None,
                              tr0 @ tr @ [Call_incrementStatusesCount (Requesting fMsg) boost]
                                  @ log_if_err (incrementStatusesCount e (Requesting fMsg) boost)
                                      ''error updating account stats: ''
                                  @ [Call_timelineAndNotifyStatus boost]
                                  @ log_if_err (timelineAndNotifyStatus e boost)
                                      ''error timelining and notifying status: ''
                                  @ [Call_notifyAnnounce boost]
                                  @ log_if_err (notifyAnnounce e boost) ''error notifying announce: ''
                                  @ [Call_invalidateStatusFromTimelines (BoostOfID boost)]))))
      | m \<Rightarrow>
          (Some (gtserror_New ''workers.(*fediAPI).CreateAnnounce''
             (Model_type m @ '' not parseable as *gtsmodel.Status'')), []))"

text \<open>
  \<^verbatim>\<open>fediAPI.CreateBlock\<close>. One cleanup step is a call followed by the line logged when the
  call fails; the handler goes on to the next step either way.
\<close>

definition wipe_step :: "env \<Rightarrow> timeline \<Rightarrow> string \<Rightarrow> string \<Rightarrow> string \<Rightarrow> event list" where
  "wipe_step e t a b msg =
     Call_WipeItemsFromAccountID t a b # log_if_err (WipeItemsFromAccountID e t a b) msg"

definition follow_step :: "env \<Rightarrow> string \<Rightarrow> string \<Rightarrow> string \<Rightarrow> event list" where
  "follow_step e a b msg = Call_DeleteFollow a b # log_if_err (DeleteFollow e a b) msg"

definition follow_request_step :: "env \<Rightarrow> string \<Rightarrow> string \<Rightarrow> string \<Rightarrow> event list" where
  "follow_request_step e a b msg =
     Call_DeleteFollowRequest a b # log_if_err (DeleteFollowRequest e a b) msg"

definition CreateBlock :: "env \<Rightarrow> FromFediAPI \<Rightarrow> result" where
  "CreateBlock e fMsg =
     (case GTSModel fMsg of
        Model_Block block \<Rightarrow>
          (None,
           wipe_step e Timelines_Home (Block_AccountID block) (Block_TargetAccountID block)
             ''error wiping items from block -> target's home timeline: ''
           @ wipe_step e Timelines_Home (Block_TargetAccountID block) (Block_AccountID block)
             ''error wiping items from target -> block's home timeline: ''
           @ wipe_step e Timelines_List (Block_AccountID block) (Block_TargetAccountID block)
             ''error wiping items from block -> target's list timeline(s): ''
           @ wipe_step e Timelines_List (Block_TargetAccountID block) (Block_AccountID block)
             ''error wiping items from target -> block's list timeline(s): ''
           @ follow_step e (Block_AccountID block) (Block_TargetAccountID block)
             ''error deleting follow from block -> target: ''
           @ follow_step e (Block_TargetAccountID block) (Block_AccountID block)
             ''error deleting follow from target -> block: ''
           @ follow_request_step e (Block_AccountID block) (Block_TargetAccountID block)
             ''error deleting follow request from block -> target: ''
           @ follow_request_step e (Block_TargetAccountID block) (Block_AccountID block)
             ''error deleting follow request from target -> block: '')
      | m \<Rightarrow>
          (Some (gtserror_New ''workers.(*fediAPI).CreateBlock''
             (Model_type m @ '' not parseable as *gtsmodel.Block'')), []))"

subsection \<open>Reading a trace\<close>

fun is_log :: "event \<Rightarrow> bool" where
  "is_log (Log_Info m) = True"
| "is_log (Log_Debug m err) = True"
| "is_log (Log_Error m err) = True"
| "is_log ev = False"

definition calls :: "event list \<Rightarrow> event list" where
  "calls tr = filter (\<lambda>ev. \<not> is_log ev) tr"

definition logs :: "event list \<Rightarrow> event list" where
  "logs tr = filter is_log tr"

text \<open>The counter increment and the timeline fan-out among the events.\<close>

fun is_counter_increment :: "event \<Rightarrow> bool" where
  "is_counter_increment (Call_incrementStatusesCount a s) = True"
| "is_counter_increment ev = False"

fun is_fan_out :: "event \<Rightarrow> bool" where
  "is_fan_out (Call_timelineAndNotifyStatus s) = True"
| "is_fan_out ev = False"

text \<open>The two approval states a resolved interaction can be in when approval is required.\<close>

definition pending_only :: "bool option \<Rightarrow> bool \<Rightarrow> bool" where
  "pending_only pendingApproval preApproved = (PtrOrValue pendingApproval False \<and> \<not> preApproved)"

definition pending_preapproved :: "bool option \<Rightarrow> bool \<Rightarrow> bool" where
  "pending_preapproved pendingApproval preApproved = (PtrOrValue pendingApproval False \<and> preApproved)"

subsection \<open>Example messages and an environment in which every call succeeds\<close>

definition alice :: Account where
  "alice = \<lparr>ID = ''01ALICE'', URI = ''https://remote.example/users/alice'',
            URL = ''https://remote.example/@alice'', Username = ''alice'', Locked = None,
            AvatarMediaAttachment = None, HeaderMediaAttachment = None\<rparr>"

definition bob :: Account where
  "bob = \<lparr>ID = ''01BOB'', URI = ''https://local.example/users/bob'',
          URL = ''https://local.example/@bob'', Username = ''bob'', Locked = None,
          AvatarMediaAttachment = None, HeaderMediaAttachment = None\<rparr>"

definition approval_1 :: InteractionApproval where
  "approval_1 = \<lparr>Approval_URI = ''https://local.example/users/bob/approvals/1''\<rparr>"

definition env_ok :: env where
  "env_ok =
     \<lparr>RefreshStatus = (\<lambda>u bare sa. Inr (bare, Some sa)),
      GetStatusByURI = (\<lambda>u iri. Inr (new_Status\<lparr>Status_URI := iri\<rparr>, Some \<lparr>JSONLDId = iri\<rparr>)),
      notifyPendingReply = (\<lambda>s. None),
      approveReply = (\<lambda>s. Inr (approval_1, s)),
      AcceptInteraction = (\<lambda>a. None),
      incrementStatusesCount = (\<lambda>a s. None),
      timelineAndNotifyStatus = (\<lambda>s. None),
      PopulateStatusFave = (\<lambda>f. Inr f),
      notifyPendingFave = (\<lambda>f. None),
      approveFave = (\<lambda>f. Inr (approval_1, f)),
      notifyFave = (\<lambda>f. None),
      EnrichAnnounce = (\<lambda>s u. Inr s),
      IsUnretrievable = (\<lambda>err. False),
      NotPermitted = (\<lambda>err. False),
      notifyPendingAnnounce = (\<lambda>s. None),
      approveAnnounce = (\<lambda>s. Inr (approval_1, s)),
      notifyAnnounce = (\<lambda>s. None),
      WipeItemsFromAccountID = (\<lambda>t a b. None),
      DeleteFollow = (\<lambda>a b. None),
      DeleteFollowRequest = (\<lambda>a b. None)\<rparr>"

text \<open>A reply to a status of bob's, as resolved: approval required, in both approval states.\<close>

definition reply_pending :: Status where
  "reply_pending =
     new_Status\<lparr>Status_ID := ''01REPLY'', Status_URI := ''https://remote.example/statuses/1'',
       Local := Some False, AccountID := ''01ALICE'', InReplyToID := ''01PARENT'',
       PendingApproval := Some True\<rparr>"

definition reply_preapproved :: Status where
  "reply_preapproved = reply_pending\<lparr>PreApproved := True\<rparr>"

definition note_1 :: Statusable where
  "note_1 = \<lparr>JSONLDId = ''https://remote.example/statuses/1''\<rparr>"

definition msg_note :: FromFediAPI where
  "msg_note =
     \<lparr>APObjectType = ObjectNote, APActivityType = ActivityCreate, APIRI = None,
      APObject = Some (AP_Statusable note_1), GTSModel = Model_nil,
      Requesting = alice, Receiving = bob\<rparr>"

definition fave_preapproved :: StatusFave where
  "fave_preapproved =
     \<lparr>StatusID = ''01PARENT'', Fave_PendingApproval = Some True, Fave_PreApproved = True\<rparr>"

definition msg_like :: FromFediAPI where
  "msg_like =
     \<lparr>APObjectType = ActivityLike, APActivityType = ActivityCreate, APIRI = None,
      APObject = None, GTSModel = Model_StatusFave fave_preapproved,
      Requesting = alice, Receiving = bob\<rparr>"

definition block_1 :: Block where
  "block_1 = \<lparr>Block_AccountID = ''01ALICE'', Block_TargetAccountID = ''01BOB''\<rparr>"

definition msg_block :: FromFediAPI where
  "msg_block =
     \<lparr>APObjectType = ActivityBlock, APActivityType = ActivityCreate, APIRI = None,
      APObject = None, GTSModel = Model_Block block_1,
      Requesting = alice, Receiving = bob\<rparr>"

text \<open>The environment in which storage fails to delete a follow.\<close>

definition storage_error :: error where
  "storage_error = ErrorString ''simulated storage error''"

definition env_follow_fails :: env where
  "env_follow_fails =
     env_ok\<lparr>DeleteFollow := (\<lambda>a b. if a = ''01ALICE'' then Some storage_error else None)\<rparr>"

text \<open>The environment in which the resolver answers with a given status.\<close>

definition env_resolving :: "Status \<Rightarrow> env" where
  "env_resolving st =
     env_ok\<lparr>RefreshStatus := (\<lambda>u bare sa. Inr (st, Some sa)),
            GetStatusByURI := (\<lambda>u iri. Inr (st, Some \<lparr>JSONLDId = iri\<rparr>))\<rparr>"

text \<open>The environment in which another delivery has created the status already.\<close>

definition env_already_created :: env where
  "env_already_created =
     env_ok\<lparr>RefreshStatus := (\<lambda>u bare sa. Inr (bare, None)),
            GetStatusByURI := (\<lambda>u iri. Inr (new_Status\<lparr>Status_URI := iri\<rparr>, None))\<rparr>"

definition msg_forwarded :: FromFediAPI where
  "msg_forwarded = msg_note\<lparr>APObject := None, APIRI := Some ''https://remote.example/statuses/1''\<rparr>"

definition msg_undo :: FromFediAPI where
  "msg_undo = msg_note\<lparr>APActivityType := ''Undo'', APObjectType := ''Follow''\<rparr>"

subsection \<open>The dispatch\<close>

text \<open>
  The methods of \<^verbatim>\<open>fediAPI\<close> that \<^verbatim>\<open>ProcessFromFediAPI\<close> can call. The dispatch does not
  depend on what they do, so they are a parameter; \<^verbatim>\<open>MoveAccount\<close> is defined in a file
  that is not among the sources.
\<close>

record handlers =
  h_CreateStatus :: "FromFediAPI \<Rightarrow> result"
  h_CreateFollowReq :: "FromFediAPI \<Rightarrow> result"
  h_CreateLike :: "FromFediAPI \<Rightarrow> result"
  h_CreateAnnounce :: "FromFediAPI \<Rightarrow> result"
  h_CreateBlock :: "FromFediAPI \<Rightarrow> result"
  h_CreateFlag :: "FromFediAPI \<Rightarrow> result"
  h_CreatePollVote :: "FromFediAPI \<Rightarrow> result"
  h_UpdateStatus :: "FromFediAPI \<Rightarrow> result"
  h_UpdateAccount :: "FromFediAPI \<Rightarrow> result"
  h_AcceptFollow :: "FromFediAPI \<Rightarrow> result"
  h_AcceptLike :: "FromFediAPI \<Rightarrow> result"
  h_AcceptReply :: "FromFediAPI \<Rightarrow> result"
  h_AcceptAnnounce :: "FromFediAPI \<Rightarrow> result"
  h_DeleteStatus :: "FromFediAPI \<Rightarrow> result"
  h_DeleteAccount :: "FromFediAPI \<Rightarrow> result"
  h_MoveAccount :: "FromFediAPI \<Rightarrow> result"

definition no_handlers :: handlers where
  "no_handlers =
     \<lparr>h_CreateStatus = (\<lambda>m. (None, [])), h_CreateFollowReq = (\<lambda>m. (None, [])),
      h_CreateLike = (\<lambda>m. (None, [])), h_CreateAnnounce = (\<lambda>m. (None, [])),
      h_CreateBlock = (\<lambda>m. (None, [])), h_CreateFlag = (\<lambda>m. (None, [])),
      h_CreatePollVote = (\<lambda>m. (None, [])), h_UpdateStatus = (\<lambda>m. (None, [])),
      h_UpdateAccount = (\<lambda>m. (None, [])), h_AcceptFollow = (\<lambda>m. (None, [])),
      h_AcceptLike = (\<lambda>m. (None, [])), h_AcceptReply = (\<lambda>m. (None, [])),
      h_AcceptAnnounce = (\<lambda>m. (None, [])), h_DeleteStatus = (\<lambda>m. (None, [])),
      h_DeleteAccount = (\<lambda>m. (None, [])), h_MoveAccount = (\<lambda>m. (None, []))\<rparr>"

text \<open>The handlers modelled above, in their places.\<close>

definition fediAPI :: "env \<Rightarrow> handlers \<Rightarrow> handlers" where
  "fediAPI e others =
     others\<lparr>h_CreateStatus := CreateStatus e, h_CreateLike := CreateLike e,
            h_CreateAnnounce := CreateAnnounce e, h_CreateBlock := CreateBlock e\<rparr>"

text \<open>
  \<^verbatim>\<open>Processor.ProcessFromFediAPI\<close>. The line "processing from fedi API" is logged before
  the \<^verbatim>\<open>switch\<close> (its fields are left out). An inner \<^verbatim>\<open>switch\<close> without a matching case
  falls out of the outer one, to the final \<^verbatim>\<open>return\<close>.
\<close>

definition processing_line :: event where
  "processing_line = Log_Info ''processing from fedi API''"

definition run_handler :: "(FromFediAPI \<Rightarrow> result) \<Rightarrow> FromFediAPI \<Rightarrow> result" where
  "run_handler h fMsg = (case h fMsg of (r, tr) \<Rightarrow> (r, processing_line # tr))"

definition unhandled :: "FromFediAPI \<Rightarrow> result" where
  "unhandled fMsg =
     (Some (gtserror_New ''workers.(*Processor).ProcessFromFediAPI''
        (''unhandled: '' @ APActivityType fMsg @ '' '' @ APObjectType fMsg)),
      [processing_line])"

definition ProcessFromFediAPI :: "handlers \<Rightarrow> FromFediAPI \<Rightarrow> result" where
  "ProcessFromFediAPI p fMsg =
     (if APActivityType fMsg = ActivityCreate then
        (if APObjectType fMsg = ObjectNote then run_handler (h_CreateStatus p) fMsg
         else if APObjectType fMsg = ActivityFollow then run_handler (h_CreateFollowReq p) fMsg
         else if APObjectType fMsg = ActivityLike then run_handler (h_CreateLike p) fMsg
         else if APObjectType fMsg = ActivityAnnounce then run_handler (h_CreateAnnounce p) fMsg
         else if APObjectType fMsg = ActivityBlock then run_handler (h_CreateBlock p) fMsg
         else if APObjectType fMsg = ActivityFlag then run_handler (h_CreateFlag p) fMsg
         else if APObjectType fMsg = ActivityQuestion then run_handler (h_CreatePollVote p) fMsg
         else unhandled fMsg)
      else if APActivityType fMsg = ActivityUpdate then
        (if APObjectType fMsg = ObjectNote then run_handler (h_UpdateStatus p) fMsg
         else if APObjectType fMsg = ActorPerson then run_handler (h_UpdateAccount p) fMsg
         else unhandled fMsg)
      else if APActivityType fMsg = ActivityAccept then
        (if APObjectType fMsg = ActivityFollow then run_handler (h_AcceptFollow p) fMsg
         else if APObjectType fMsg = ActivityLike then run_handler (h_AcceptLike p) fMsg
         else if APObjectType fMsg = ObjectNote then run_handler (h_AcceptReply p) fMsg
         else if APObjectType fMsg = ActivityAnnounce then run_handler (h_AcceptAnnounce p) fMsg
         else unhandled fMsg)
      else if APActivityType fMsg = ActivityDelete then
        (if APObjectType fMsg = ObjectNote then run_handler (h_DeleteStatus p) fMsg
         else if APObjectType fMsg = ActorPerson then run_handler (h_DeleteAccount p) fMsg
         else unhandled fMsg)
      else if APActivityType fMsg = ActivityMove then
        (if APObjectType fMsg = ActorPerson then run_handler (h_MoveAccount p) fMsg
         else unhandled fMsg)
      else unhandled fMsg)"

text \<open>
  The routing table in the words of the specification: a fixed mapping from a
  (verb, object type) pair to a handler.
\<close>

definition dispatch_table :: "((string \<times> string) \<times> (handlers \<Rightarrow> FromFediAPI \<Rightarrow> result)) list" where
  "dispatch_table =
     [((''Create'', ''Note''), h_CreateStatus),
      ((''Create'', ''Follow''), h_CreateFollowReq),
      ((''Create'', ''Like''), h_CreateLike),
      ((''Create'', ''Announce''), h_CreateAnnounce),
      ((''Create'', ''Block''), h_CreateBlock),
      ((''Create'', ''Flag''), h_CreateFlag),
      ((''Create'', ''Question''), h_CreatePollVote),
      ((''Update'', ''Note''), h_UpdateStatus),
      ((''Update'', ''Person''), h_UpdateAccount),
      ((''Accept'', ''Follow''), h_AcceptFollow),
      ((''Accept'', ''Like''), h_AcceptLike),
      ((''Accept'', ''Note''), h_AcceptReply),
      ((''Accept'', ''Announce''), h_AcceptAnnounce),
      ((''Delete'', ''Note''), h_DeleteStatus),
      ((''Delete'', ''Person''), h_DeleteAccount),
      ((''Move'', ''Person''), h_MoveAccount)]"

definition registered :: "FromFediAPI \<Rightarrow> (handlers \<Rightarrow> FromFediAPI \<Rightarrow> result) option" where
  "registered fMsg = map_of dispatch_table (APActivityType fMsg, APObjectType fMsg)"

section \<open>The worker pool (internal/concurrency/workers.go)\<close>

text \<open>
  A processor works on a message in some state of the world and returns its error. The
  pool has its processor (\<open>None\<close> until \<^verbatim>\<open>SetProcessor\<close>), its logging prefix, and a FIFO
  queue of the closures enqueued; a closure is determined by its message.
\<close>

record ('msg, 'w) WorkerPool =
  process :: "('msg \<Rightarrow> 'w \<Rightarrow> error option \<times> 'w) option"
  prefix :: string
  queue :: "'msg list"

text \<open>What running closures leaves behind: the world, and the lines logged with \<^verbatim>\<open>log.Errorf\<close>.\<close>

record 'w run_state =
  world :: 'w
  errors_logged :: "(string \<times> error) list"

text \<open>
  \<^verbatim>\<open>WorkerPool.Queue\<close>: the closure goes to the end of the queue. (The trace line it logs
  first is left out.)
\<close>

definition Queue :: "('msg, 'w) WorkerPool \<Rightarrow> 'msg \<Rightarrow> ('msg, 'w) WorkerPool" where
  "Queue w msg = w\<lparr>queue := queue w @ [msg]\<rparr>"

text \<open>
  The closure \<^verbatim>\<open>Queue\<close> enqueues, run by a worker. Its Go type is \<^verbatim>\<open>func(context.Context)\<close>:
  it returns no value, so its result here is the state it leaves. Calling a nil
  \<^verbatim>\<open>process\<close> panics (\<open>None\<close>); \<^verbatim>\<open>Start\<close> refuses to start a pool without a processor.
\<close>

definition queued_closure ::
  "('msg, 'w) WorkerPool \<Rightarrow> 'msg \<Rightarrow> 'w run_state \<Rightarrow> 'w run_state option" where
  "queued_closure w msg s =
     (case process w of
        None \<Rightarrow> None
      | Some fn \<Rightarrow>
          (case fn msg (world s) of
             (Some err, w') \<Rightarrow>
               Some (s\<lparr>world := w', errors_logged := errors_logged s @ [(prefix w, err)]\<rparr>)
           | (None, w') \<Rightarrow> Some (s\<lparr>world := w'\<rparr>)))"

text \<open>
  Modelled from the spec: the scheduler (\<^verbatim>\<open>runners.WorkerPool\<close>) is not among the sources.
  "Each worker pulls one message at a time, invokes the processor": one worker draining
  the queue in FIFO order.
\<close>

fun worker_drain ::
  "('msg, 'w) WorkerPool \<Rightarrow> 'msg list \<Rightarrow> 'w run_state \<Rightarrow> 'w run_state option" where
  "worker_drain w [] s = Some s"
| "worker_drain w (msg # msgs) s =
     (case queued_closure w msg s of None \<Rightarrow> None | Some s' \<Rightarrow> worker_drain w msgs s')"

text \<open>The world after processing a list of messages, whatever errors the processor returns.\<close>

fun process_all :: "('msg \<Rightarrow> 'w \<Rightarrow> error option \<times> 'w) \<Rightarrow> 'msg list \<Rightarrow> 'w \<Rightarrow> 'w" where
  "process_all fn [] x = x"
| "process_all fn (msg # msgs) x = process_all fn msgs (snd (fn msg x))"

text \<open>The errors the processor returns along the way, in order.\<close>

fun errors_of :: "('msg \<Rightarrow> 'w \<Rightarrow> error option \<times> 'w) \<Rightarrow> 'msg list \<Rightarrow> 'w \<Rightarrow> error list" where
  "errors_of fn [] x = []"
| "errors_of fn (msg # msgs) x =
     (case fst (fn msg x) of None \<Rightarrow> [] | Some err \<Rightarrow> [err]) @ errors_of fn msgs (snd (fn msg x))"

text \<open>An example: a processor that records each message and fails on the message 2.\<close>

definition failing_on_2 :: "nat \<Rightarrow> nat list \<Rightarrow> error option \<times> nat list" where
  "failing_on_2 m x = (if m = 2 then Some (ErrorString ''cannot process 2'') else None, x @ [m])"

definition pool_1 :: "(nat, nat list) WorkerPool" where
  "pool_1 = \<lparr>process = Some failing_on_2, prefix = ''worker.Worker[int]'', queue = []\<rparr>"

section \<open>The account and notification caches (package cache)\<close>

subsection \<open>The heap\<close>

text \<open>
  The caches hold pointers, and the claims about them are claims about sharing, so the
  structs live in a heap: a list of cells, an address is an index, and allocation appends
  a cell. A pointer is \<open>None\<close> (nil) or \<open>Some\<close> address. Go has no dangling pointers; the
  addresses a caller passes are below the length of the heap.
\<close>

datatype panic = Panic string

type_synonym time = int

definition alloc :: "'a list \<Rightarrow> 'a \<Rightarrow> addr \<times> 'a list" where
  "alloc h v = (length h, h @ [v])"

subsection \<open>The generic cache (type Cache)\<close>

text \<open>
  An entry holds the pointer cached and its expiry. \<^verbatim>\<open>cacheClock.Now()\<close> is a parameter
  \<open>now\<close> of the operations. The sweep that evicts entries runs in a goroutine of its own,
  under the mutex, so it happens between two operations of a caller; it is an operation
  of its own below.
\<close>

record entry =
  entry_value :: addr
  entry_expiry :: time

record AccountCache =
  entries :: "string \<rightharpoonup> entry"
  ttl :: int
  urls :: "string \<rightharpoonup> string"
  uris :: "string \<rightharpoonup> string"

text \<open>\<^verbatim>\<open>NewAccount\<close>: empty maps, and the five minutes of \<^verbatim>\<open>Cache.init\<close> in nanoseconds.\<close>

definition NewAccount :: AccountCache where
  "NewAccount = \<lparr>entries = Map.empty, ttl = 300000000000, urls = Map.empty, uris = Map.empty\<rparr>"


text \<open>
  The update hook that \<^verbatim>\<open>AccountCache.SetUpdateCallback\<close> installs (the user's hook is the
  empty one): when the URI or the URL of the account under a key changes, the lookups
  follow.
\<close>

definition update_hook :: "Account \<Rightarrow> Account \<Rightarrow> AccountCache \<Rightarrow> AccountCache" where
  "update_hook oldAcc newAcc c =
     (let c1 = (if URI oldAcc \<noteq> URI newAcc
                then c\<lparr>uris := ((uris c)(URI oldAcc := None))(URI newAcc \<mapsto> ID newAcc)\<rparr>
                else c)
      in if URL oldAcc \<noteq> URL newAcc
         then (let c2 = (if URL oldAcc \<noteq> [] then c1\<lparr>urls := (urls c1)(URL oldAcc := None)\<rparr> else c1)
               in if URL newAcc \<noteq> [] then c2\<lparr>urls := (urls c2)(URL newAcc \<mapsto> ID newAcc)\<rparr> else c2)
         else c1)"

text \<open>\<^verbatim>\<open>Cache.set\<close>: the update hook on an existing entry, then the new value and expiry.\<close>

definition Cache_set :: "Account list \<Rightarrow> AccountCache \<Rightarrow> string \<Rightarrow> addr \<Rightarrow> time \<Rightarrow> AccountCache" where
  "Cache_set h c key v now =
     (let c1 = (case entries c key of
                  Some item \<Rightarrow> update_hook (h ! entry_value item) (h ! v) c
                | None \<Rightarrow> c)
      in c1\<lparr>entries := (entries c1)(key \<mapsto> \<lparr>entry_value = v, entry_expiry = now + ttl c1\<rparr>)\<rparr>)"



subsection \<open>The account cache\<close>

text \<open>
  \<^verbatim>\<open>copyAccount\<close>: a new struct with the fields of the old one, the two attachment pointers
  set to nil.
\<close>

definition copyAccount :: "Account list \<Rightarrow> addr \<Rightarrow> addr \<times> Account list" where
  "copyAccount h account =
     alloc h ((h ! account)\<lparr>AvatarMediaAttachment := None, HeaderMediaAttachment := None\<rparr>)"





text \<open>
  \<^verbatim>\<open>AccountCache.Set\<close>. The check comes first and panics; a panic leaves the heap and the
  cache as they were, so \<open>Inl\<close> carries no state.
\<close>

definition AccountCache_Set ::
  "Account list \<Rightarrow> AccountCache \<Rightarrow> addr option \<Rightarrow> time \<Rightarrow> panic + (Account list \<times> AccountCache)" where
  "AccountCache_Set h c account now =
     (case account of
        None \<Rightarrow> Inl (Panic ''invalid account'')
      | Some p \<Rightarrow>
          if ID (h ! p) = [] \<or> URI (h ! p) = [] then Inl (Panic ''invalid account'')
          else
            (case copyAccount h p of
               (q, h') \<Rightarrow>
                 (let c1 = Cache_set h' c (ID (h ! p)) q now;
                      c2 = c1\<lparr>uris := (uris c1)(URI (h ! p) \<mapsto> ID (h ! p))\<rparr>;
                      c3 = (if URL (h ! p) \<noteq> []
                            then c2\<lparr>urls := (urls c2)(URL (h ! p) \<mapsto> ID (h ! p))\<rparr> else c2)
                  in Inr (h', c3))))"

text \<open>The account as a lookup returns it: the fields of the original, the pointers nil.\<close>

definition severed :: "Account \<Rightarrow> Account" where
  "severed a = a\<lparr>AvatarMediaAttachment := None, HeaderMediaAttachment := None\<rparr>"

subsection \<open>The notification cache\<close>

text \<open>
  A notification, as far as the cache looks into it: its ID and the three pointers that
  \<^verbatim>\<open>copyNotification\<close> sets to nil. The cache underneath is the external \<^verbatim>\<open>go-cache\<close>; its
  \<^verbatim>\<open>Set\<close> stores the value under the key.
\<close>

record Notification =
  Notification_ID :: string
  Notification_Status :: "addr option"
  OriginAccount :: "addr option"
  TargetAccount :: "addr option"

definition copyNotification :: "Notification list \<Rightarrow> addr \<Rightarrow> addr \<times> Notification list" where
  "copyNotification h mention =
     alloc h ((h ! mention)\<lparr>Notification_Status := None, OriginAccount := None, TargetAccount := None\<rparr>)"

definition NotificationCache_Put ::
  "Notification list \<Rightarrow> (string \<rightharpoonup> addr) \<Rightarrow> addr option \<Rightarrow>
   panic + (Notification list \<times> (string \<rightharpoonup> addr))" where
  "NotificationCache_Put h c notif =
     (case notif of
        None \<Rightarrow> Inl (Panic ''invalid notification'')
      | Some p \<Rightarrow>
          if Notification_ID (h ! p) = [] then Inl (Panic ''invalid notification'')
          else (case copyNotification h p of (q, h') \<Rightarrow> Inr (h', c(Notification_ID (h ! p) \<mapsto> q))))"



definition nameless :: Account where
  "nameless = alice\<lparr>ID := []\<rparr>"

definition notification_1 :: Notification where
  "notification_1 =
     \<lparr>Notification_ID = ''01NOTIF'', Notification_Status = Some 3, OriginAccount = Some 4,
      TargetAccount = Some 5\<rparr>"

subsection \<open>What the claims about the caches say\<close>








subsection \<open>The emoji cache\<close>








definition invalid_account :: "Account list \<Rightarrow> addr option \<Rightarrow> bool" where
  "invalid_account h account =
     (case account of None \<Rightarrow> True | Some p \<Rightarrow> ID (h ! p) = [] \<or> URI (h ! p) = [])"

definition invalid_notification :: "Notification list \<Rightarrow> addr option \<Rightarrow> bool" where
  "invalid_notification h notif =
     (case notif of None \<Rightarrow> True | Some p \<Rightarrow> Notification_ID (h ! p) = [])"

section \<open>The mute filter (package mutes) and its cache\<close>

text \<open>
  A \<^verbatim>\<open>time.Time\<close> is an instant, an integer here, with the zero time at 0:
  \<^verbatim>\<open>IsZero\<close>, \<^verbatim>\<open>After\<close> and \<^verbatim>\<open>Before\<close> compare instants.
\<close>

definition IsZero :: "time \<Rightarrow> bool" where
  "IsZero t = (t = 0)"

definition After :: "time \<Rightarrow> time \<Rightarrow> bool" where
  "After t u = (u < t)"

definition Before :: "time \<Rightarrow> time \<Rightarrow> bool" where
  "Before t u = (t < u)"

text \<open>
  Modelled from the spec: the constants \<^verbatim>\<open>cache.MuteType...\<close> are not among the sources; the
  spec speaks of the kind of item of a decision, a status or an account.
\<close>

datatype MuteType = MuteTypeStatus | MuteTypeAccount

record CachedMute =
  ItemID :: string
  RequesterID :: string
  Type :: MuteType
  Mute :: bool
  MuteExpiry :: time
  Notifications :: bool
  NotificationExpiry :: time

text \<open>\<^verbatim>\<open>&cache.CachedMute{}\<close>: every field at its zero value (the type has no zero constant of
  its own in the sources; it plays no part in what follows).\<close>

definition zero_CachedMute :: CachedMute where
  "zero_CachedMute =
     \<lparr>ItemID = [], RequesterID = [], Type = MuteTypeStatus, Mute = False, MuteExpiry = 0,
      Notifications = False, NotificationExpiry = 0\<rparr>"

text \<open>\<^verbatim>\<open>CachedMute.MuteExpired\<close>.\<close>

definition MuteExpired :: "CachedMute \<Rightarrow> time \<Rightarrow> bool" where
  "MuteExpired m now = (\<not> IsZero (MuteExpiry m) \<and> \<not> After (MuteExpiry m) now)"

text \<open>
  A user mute, as far as the filter looks into it. \<^verbatim>\<open>Notifications\<close> is a \<^verbatim>\<open>*bool\<close> that the
  filter dereferences without a check: nil panics.
\<close>

record UserMute =
  ExpiresAt :: time
  UserMute_Notifications :: "bool option"

record ThreadMute =
  ThreadMute_ID :: string

text \<open>The storage calls of the filter: each returns a value and an error, as in Go.\<close>

record DB =
  GetThreadMutedByAccount :: "string \<Rightarrow> string \<Rightarrow> ThreadMute option \<times> error option"
  GetMute :: "string \<Rightarrow> string \<Rightarrow> UserMute option \<times> error option"

text \<open>\<^verbatim>\<open>Filter.getStatusThreadMute\<close>.\<close>

definition getStatusThreadMute :: "DB \<Rightarrow> Account \<Rightarrow> Status \<Rightarrow> error + ThreadMute option" where
  "getStatusThreadMute db requester status =
     (if ThreadID status = [] then Inr None
      else (case GetThreadMutedByAccount db (ThreadID status) (ID requester) of
              (mute, Some err) \<Rightarrow>
                Inl (gtserror_Newf ''mutes.(*Filter).getStatusThreadMute''
                       ''db error checking thread mute: '' err)
            | (mute, None) \<Rightarrow> Inr mute))"

text \<open>
  \<^verbatim>\<open>Filter.getStatusRelatedUserMutes\<close>: the mute against the author, then, in the loop,
  the mutes against the accounts mentioned.
\<close>

fun mentions_loop :: "DB \<Rightarrow> Account \<Rightarrow> Mention list \<Rightarrow> UserMute list \<Rightarrow> error + UserMute list" where
  "mentions_loop db requester [] mutes = Inr mutes"
| "mentions_loop db requester (mention # rest) mutes =
     (if TargetAccountID mention \<noteq> ID requester then
        (case GetMute db (ID requester) (TargetAccountID mention) of
           (mute, err) \<Rightarrow>
             if err \<noteq> None \<and> \<not> is_ErrNoEntries (the err) then
               Inl (gtserror_Newf ''mutes.(*Filter).getStatusRelatedUserMutes''
                      ''db error getting mention target mute: '' (the err))
             else mentions_loop db requester rest
                    (case mute of None \<Rightarrow> mutes | Some m \<Rightarrow> mutes @ [m]))
      else mentions_loop db requester rest mutes)"

definition getStatusRelatedUserMutes :: "DB \<Rightarrow> Account \<Rightarrow> Status \<Rightarrow> error + UserMute list" where
  "getStatusRelatedUserMutes db requester status =
     (if AccountID status = ID requester then Inr []
      else (case GetMute db (ID requester) (AccountID status) of
              (mute, err) \<Rightarrow>
                if err \<noteq> None \<and> \<not> is_ErrNoEntries (the err) then
                  Inl (gtserror_Newf ''mutes.(*Filter).getStatusRelatedUserMutes''
                         ''db error getting status author mute: '' (the err))
                else mentions_loop db requester (Mentions status)
                       (case mute of None \<Rightarrow> [] | Some m \<Rightarrow> [m])))"

text \<open>
  The loop of the loader over the user mutes. Its variables are \<open>muted\<close>, \<open>muteExpiry\<close>,
  \<open>notifs\<close> and \<open>notifExpiry\<close>; \<open>Inl\<close> is the panic of a nil \<^verbatim>\<open>Notifications\<close>.
\<close>

fun mutes_loop ::
  "time \<Rightarrow> UserMute list \<Rightarrow> bool \<times> time \<times> bool \<times> time \<Rightarrow> panic + (bool \<times> time \<times> bool \<times> time)" where
  "mutes_loop now [] vars = Inr vars"
| "mutes_loop now (mute # rest) (muted, muteExpiry, notifs, notifExpiry) =
     (if \<not> IsZero (ExpiresAt mute) \<and> Before (ExpiresAt mute) now
      then mutes_loop now rest (muted, muteExpiry, notifs, notifExpiry)
      else
        (let muteExpiry' =
               (if \<not> IsZero (ExpiresAt mute) \<and> After (ExpiresAt mute) muteExpiry
                then ExpiresAt mute else muteExpiry)
         in case UserMute_Notifications mute of
              None \<Rightarrow> Inl (Panic ''invalid memory address or nil pointer dereference'')
            | Some True \<Rightarrow>
                mutes_loop now rest
                  (True, muteExpiry', True,
                   if After (ExpiresAt mute) notifExpiry then ExpiresAt mute else notifExpiry)
            | Some False \<Rightarrow> mutes_loop now rest (True, muteExpiry', notifs, notifExpiry)))"

text \<open>The loader callback that \<^verbatim>\<open>getStatusMuteDetails\<close> hands to the cache.\<close>

definition load_mute :: "DB \<Rightarrow> Account \<Rightarrow> Status \<Rightarrow> time \<Rightarrow> panic + (error + CachedMute)" where
  "load_mute db requester status now =
     (case getStatusThreadMute db requester status of
        Inl err \<Rightarrow> Inr (Inl err)
      | Inr threadMute \<Rightarrow>
          (case getStatusRelatedUserMutes db requester status of
             Inl err \<Rightarrow> Inr (Inl err)
           | Inr userMutes \<Rightarrow>
               (case mutes_loop now userMutes (False, 0, threadMute \<noteq> None, 0) of
                  Inl p \<Rightarrow> Inl p
                | Inr (muted, muteExpiry, notifs, notifExpiry) \<Rightarrow>
                    Inr (Inr \<lparr>ItemID = Status_ID status, RequesterID = ID requester,
                              Type = MuteTypeStatus, Mute = muted, MuteExpiry = muteExpiry,
                              Notifications = notifs, NotificationExpiry = notifExpiry\<rparr>))))"

text \<open>
  Modelled from the spec: the mutes cache (\<^verbatim>\<open>StructCache\<close>) is not among the sources.
  "Load: look up by a named index; on hit, return a defensive copy; on miss, invoke the
  loader, store the result, and return a copy." The index is "Type,RequesterID,ItemID";
  values are copied, so the cache is a map from the key to the value. The loader is
  passed as the result it would give, and is looked at only on a miss.
\<close>

type_synonym MutesCache = "MuteType \<times> string \<times> string \<rightharpoonup> CachedMute"

definition LoadOne ::
  "MutesCache \<Rightarrow> panic + (error + CachedMute) \<Rightarrow> MuteType \<times> string \<times> string \<Rightarrow>
   (panic + (error + CachedMute)) \<times> MutesCache" where
  "LoadOne c loaded key =
     (case c key of
        Some v \<Rightarrow> (Inr (Inr v), c)
      | None \<Rightarrow>
          (case loaded of
             Inr (Inr v) \<Rightarrow> (Inr (Inr v), c(key \<mapsto> v))
           | other \<Rightarrow> (other, c)))"

text \<open>
  \<^verbatim>\<open>Filter.getStatusMuteDetails\<close>: the details, the time taken as "now", and the error;
  \<^verbatim>\<open>time.Now()\<close> is the parameter \<open>clock\<close>.
\<close>

definition getStatusMuteDetails ::
  "DB \<Rightarrow> MutesCache \<Rightarrow> Account option \<Rightarrow> Status \<Rightarrow> time \<Rightarrow>
   (panic + (CachedMute option \<times> time \<times> error option)) \<times> MutesCache" where
  "getStatusMuteDetails db c requester status clock =
     (case requester of
        None \<Rightarrow> (Inr (Some zero_CachedMute, 0, None), c)
      | Some r \<Rightarrow>
          (let now = clock
           in case LoadOne c (load_mute db r status now) (MuteTypeStatus, ID r, Status_ID status) of
                (Inl p, c') \<Rightarrow> (Inl p, c')
              | (Inr (Inl err), c') \<Rightarrow> (Inr (None, now, Some err), c')
              | (Inr (Inr details), c') \<Rightarrow> (Inr (Some details, now, None), c')))"

text \<open>\<^verbatim>\<open>Filter.StatusMuted\<close>: \<open>(muted, withExpiry, err)\<close>.\<close>

definition StatusMuted ::
  "DB \<Rightarrow> MutesCache \<Rightarrow> Account option \<Rightarrow> Status \<Rightarrow> time \<Rightarrow>
   (panic + (bool \<times> bool \<times> error option)) \<times> MutesCache" where
  "StatusMuted db c requester status clock =
     (case getStatusMuteDetails db c requester status clock of
        (Inl p, c') \<Rightarrow> (Inl p, c')
      | (Inr (details, now, Some err), c') \<Rightarrow>
          (Inr (False, False,
                Some (gtserror_Newf ''mutes.(*Filter).StatusMuted''
                        ''error getting status mute details: '' err)), c')
      | (Inr (None, now, None), c') \<Rightarrow>
          (Inl (Panic ''invalid memory address or nil pointer dereference''), c')
      | (Inr (Some details, now, None), c') \<Rightarrow>
          (if \<not> Mute details then (Inr (False, False, None), c')
           else if IsZero (MuteExpiry details) then (Inr (True, False, None), c')
           else (Inr (After (MuteExpiry details) now, True, None), c')))"

text \<open>The key under which the decision about a status for a requester is cached.\<close>

definition mute_key :: "Account \<Rightarrow> Status \<Rightarrow> MuteType \<times> string \<times> string" where
  "mute_key r status = (MuteTypeStatus, ID r, Status_ID status)"

text \<open>An example: a mute of bob's against a status of alice's that expired at 500.\<close>

definition status_1 :: Status where
  "status_1 = new_Status\<lparr>Status_ID := ''01STATUS'', AccountID := ''01ALICE''\<rparr>"

definition expired_mute :: CachedMute where
  "expired_mute =
     \<lparr>ItemID = ''01STATUS'', RequesterID = ''01BOB'', Type = MuteTypeStatus, Mute = True,
      MuteExpiry = 500, Notifications = False, NotificationExpiry = 0\<rparr>"

definition no_DB :: DB where
  "no_DB =
     \<lparr>GetThreadMutedByAccount = (\<lambda>t a. (None, None)),
      GetMute = (\<lambda>a b. (None, Some ErrNoEntries))\<rparr>"

text \<open>A store in which bob mutes alice until 500.\<close>

definition muting_DB :: DB where
  "muting_DB =
     \<lparr>GetThreadMutedByAccount = (\<lambda>t a. (None, None)),
      GetMute = (\<lambda>a b. if a = ''01BOB'' \<and> b = ''01ALICE''
                        then (Some \<lparr>ExpiresAt = 500, UserMute_Notifications = Some False\<rparr>, None)
                        else (None, Some ErrNoEntries))\<rparr>"

section \<open>Cursor paging: the paging functions against their contract\<close>

subsection \<open>The reversal loop reverses, the search loop finds the first occurrence\<close>

lemma length_swap_loop: "j < length xs \<Longrightarrow> length (swap_loop xs i j) = length xs"
proof (induction xs i j rule: swap_loop.induct)
  case (1 xs i j)
  show ?case
  proof (cases "i < j")
    case True
    with 1 show ?thesis by (subst swap_loop.simps) simp
  next
    case False
    then show ?thesis by (subst swap_loop.simps) simp
  qed
qed

lemma nth_swap_loop:
  "j < length xs \<Longrightarrow> k < length xs \<Longrightarrow>
   swap_loop xs i j ! k = (if i \<le> k \<and> k \<le> j then xs ! (i + j - k) else xs ! k)"
proof (induction xs i j arbitrary: k rule: swap_loop.induct)
  case (1 xs i j)
  show ?case
  proof (cases "i < j")
    case True
    let ?ys = "xs[i := xs ! j, j := xs ! i]"
    have step: "swap_loop xs i j = swap_loop ?ys (i + 1) (j - 1)"
      using True by (subst swap_loop.simps) simp
    have ih: "swap_loop ?ys (i + 1) (j - 1) ! k =
        (if i + 1 \<le> k \<and> k \<le> j - 1 then ?ys ! (i + 1 + (j - 1) - k) else ?ys ! k)"
      using "1.IH" [OF True, of k] "1.prems" by simp
    show ?thesis
      unfolding step ih using True "1.prems"
      by (auto simp: nth_list_update)
  next
    case False
    have "swap_loop xs i j = xs" using False by (subst swap_loop.simps) simp
    with False "1.prems" show ?thesis
      by (cases "i = j") auto
  qed
qed

lemma reverse_clone_rev: "reverse_clone xs = rev xs"
proof (cases "xs = []")
  case True
  then show ?thesis by (simp add: reverse_clone_def swap_loop.simps)
next
  case False
  then have j: "length xs - 1 < length xs" by (cases xs) auto
  show ?thesis
  proof (rule nth_equalityI)
    show "length (reverse_clone xs) = length (rev xs)"
      using length_swap_loop [OF j] by (simp add: reverse_clone_def)
  next
    fix k assume "k < length (reverse_clone xs)"
    then have k: "k < length xs"
      using length_swap_loop [OF j] by (simp add: reverse_clone_def)
    then have kle: "k \<le> length xs - 1" by arith
    have "swap_loop xs 0 (length xs - 1) ! k = xs ! (0 + (length xs - 1) - k)"
      using nth_swap_loop [OF j k, of 0] kle by simp
    moreover have "0 + (length xs - 1) - k = length xs - Suc k" by simp
    ultimately show "reverse_clone xs ! k = rev xs ! k"
      using k by (simp add: reverse_clone_def rev_nth)
  qed
qed

lemma find_loop_eq:
  "find_loop v xs i = (if v \<in> set xs then i + int (first_index v xs) else -1)"
  by (induction xs arbitrary: i) (auto simp: first_index_def)


lemma Find_locate: "Find b xs = (case locate (Value b) xs of None \<Rightarrow> -1 | Some i \<Rightarrow> int i)"
  by (simp add: Find_def locate_def find_loop_eq)

lemma reslice_limit_truncate: "reslice_limit l xs = truncate_spec l xs"
  by (simp add: reslice_limit_def truncate_spec_def)

lemma first_index_less: "v \<in> set xs \<Longrightarrow> first_index v xs < length xs"
  unfolding first_index_def by (induction xs) auto

lemma nth_first_index: "v \<in> set xs \<Longrightarrow> xs ! first_index v xs = v"
  unfolding first_index_def
  by (metis (mono_tags, lifting) first_index_def first_index_less nth_length_takeWhile)

lemma first_index_drop:
  assumes v: "v \<in> set xs" and i: "i < first_index v xs"
  shows "v \<in> set (drop (Suc i) xs) \<and> first_index v (drop (Suc i) xs) = first_index v xs - Suc i"
proof -
  let ?P = "\<lambda>x. x \<noteq> v"
  let ?A = "takeWhile ?P xs" and ?B = "dropWhile ?P xs"
  have len: "Suc i \<le> length ?A" using i by (simp add: first_index_def)
  have B: "?B \<noteq> [] \<and> hd ?B = v"
    using v by (metis (mono_tags, lifting) dropWhile_eq_Nil_conv hd_dropWhile)
  then obtain bs where Bs: "?B = v # bs" by (cases ?B) auto
  have "drop (Suc i) xs = drop (Suc i) (?A @ ?B)" by simp
  also have "\<dots> = drop (Suc i) ?A @ ?B"
    using len by (simp del: takeWhile_dropWhile_id)
  finally have d: "drop (Suc i) xs = drop (Suc i) ?A @ v # bs" using Bs by simp
  have all: "\<forall>x \<in> set (drop (Suc i) ?A). x \<noteq> v"
    by (auto dest!: in_set_dropD set_takeWhileD)
  have "takeWhile ?P (drop (Suc i) ?A @ v # bs) = drop (Suc i) ?A @ takeWhile ?P (v # bs)"
    by (rule takeWhile_append2) (use all in blast)
  then have "takeWhile ?P (drop (Suc i) xs) = drop (Suc i) ?A"
    by (simp only: d takeWhile.simps simp_thms if_False append_Nil2)
  then have "first_index v (drop (Suc i) xs) = first_index v xs - Suc i"
    by (simp only: first_index_def length_drop)
  moreover have "v \<in> set (drop (Suc i) xs)"
    by (simp only: d set_append list.set) blast
  ultimately show ?thesis by blast
qed

lemma not_in_drop: "v \<notin> set xs \<Longrightarrow> v \<notin> set (drop n xs)"
  by (meson in_set_dropD)

lemma locate_drop_None: "locate v xs = None \<Longrightarrow> locate v (drop n xs) = None"
  by (auto simp: locate_def dest: in_set_dropD split: if_splits)

lemma slice_code_eq_spec:
  assumes "\<forall>i j. locate a xs = Some i \<and> locate b xs = Some j \<longrightarrow> i < j"
  shows "(let in1 = (case locate a xs of None \<Rightarrow> xs | Some i \<Rightarrow> drop (Suc i) xs)
          in case locate b in1 of None \<Rightarrow> in1 | Some j \<Rightarrow> take j in1) = slice_between a b xs"
proof (cases "locate a xs")
  case None
  then show ?thesis by (simp add: slice_between_def)
next
  case (Some i)
  show ?thesis
  proof (cases "locate b xs")
    case None
    then show ?thesis using Some locate_drop_None [OF None, of "Suc i"]
      by (simp add: slice_between_def)
  next
    case b: (Some j)
    have ij: "i < j" using assms Some b by simp
    have bin: "b \<in> set xs" "\<not> zero b" "first_index b xs = j"
      using b by (simp_all add: locate_def split: if_splits)
    from first_index_drop [of b xs i] bin ij
    have "locate b (drop (Suc i) xs) = Some (j - Suc i)"
      by (simp add: locate_def)
    moreover have "take (j - Suc i) (drop (Suc i) xs) = drop (Suc i) (take j xs)"
      by (simp add: drop_take)
    ultimately show ?thesis using Some b by (simp add: slice_between_def)
  qed
qed

lemma sorted_first_index_less:
  assumes "sorted xs" "a \<in> set xs" "b \<in> set xs" "a < (b::'a::linorder)"
  shows "first_index a xs < first_index b xs"
proof (rule ccontr)
  assume "\<not> first_index a xs < first_index b xs"
  then have "first_index b xs \<le> first_index a xs" by simp
  then have "xs ! first_index b xs \<le> xs ! first_index a xs"
    using assms(1) first_index_less [OF assms(2)] by (simp add: sorted_nth_mono)
  then show False using assms by (simp add: nth_first_index)
qed

lemma sorted_rev_first_index_less:
  assumes "sorted (rev xs)" "a \<in> set xs" "b \<in> set xs" "a < (b::'a::linorder)"
  shows "first_index b xs < first_index a xs"
proof (rule ccontr)
  assume "\<not> first_index b xs < first_index a xs"
  then have le: "first_index a xs \<le> first_index b xs" by simp
  have "sorted_wrt (\<lambda>x y. y \<le> x) xs" using assms(1) by (simp add: sorted_wrt_rev)
  then have "xs ! first_index b xs \<le> xs ! first_index a xs"
    using le first_index_less [OF assms(3)]
    by (cases "first_index a xs = first_index b xs") (auto simp: sorted_wrt_iff_nth_less)
  then show False using assms by (simp add: nth_first_index)
qed

lemma reverse_guard:
  "(if c \<and> length xs > 1 then reverse_clone xs else xs) = (if c then rev xs else xs)"
proof (cases xs)
  case Nil
  then show ?thesis by simp
next
  case (Cons x ys)
  then show ?thesis by (cases ys) (auto simp: reverse_clone_rev)
qed

lemma Find_drop:
  "(if Find b xs \<noteq> -1 then drop (nat (Find b xs + 1)) xs else xs) =
   (case locate (Value b) xs of None \<Rightarrow> xs | Some i \<Rightarrow> drop (Suc i) xs)"
  by (simp add: Find_locate nat_add_distrib split: option.splits)

lemma Find_take:
  "(if Find b xs \<noteq> -1 then take (nat (Find b xs)) xs else xs) =
   (case locate (Value b) xs of None \<Rightarrow> xs | Some j \<Rightarrow> take j xs)"
  by (simp add: Find_locate split: option.splits)

lemma if_rev_id: "(if c then rev xs else xs) = (if c then rev else id) xs"
  by simp

lemma PageAsc_code:
  "PageAsc (Some p) xs =
     truncate_spec (Limit p)
       ((if order p = OrderDescending then rev else id)
         (let in1 = (case locate (Value (Page_Min p)) xs of None \<Rightarrow> xs | Some i \<Rightarrow> drop (Suc i) xs)
          in case locate (Value (Page_Max p)) in1 of None \<Rightarrow> in1 | Some j \<Rightarrow> take j in1))"
  unfolding PageAsc_def Let_def option.case Find_drop Find_take reverse_guard
    reslice_limit_truncate Descending_def if_rev_id ..

lemma PageDesc_code:
  "PageDesc (Some p) xs =
     truncate_spec (Limit p)
       ((if order p = OrderAscending then rev else id)
         (let in1 = (case locate (Value (Page_Max p)) xs of None \<Rightarrow> xs | Some i \<Rightarrow> drop (Suc i) xs)
          in case locate (Value (Page_Min p)) in1 of None \<Rightarrow> in1 | Some j \<Rightarrow> take j in1))"
  unfolding PageDesc_def Let_def option.case Find_drop Find_take reverse_guard
    reslice_limit_truncate Ascending_def if_rev_id ..

lemma locate_Some:
  "locate v xs = Some i \<Longrightarrow> v \<in> set xs \<and> i = first_index v xs \<and> \<not> zero v"
  by (simp add: locate_def split: if_splits)

text \<open>
  Claim C4, as amended. For every page and every input sorted in the documented order
  (ascending for \<^verbatim>\<open>PageAsc\<close>, descending for \<^verbatim>\<open>PageDesc\<close>), provided the minimum value is
  below the maximum value whenever both boundaries are located in the input, the paging
  functions return the sub-slice strictly between the located boundaries: a boundary is
  located at the first element equal to its value, both boundaries are excluded, and a
  boundary whose value is the zero value, or does not occur in the input, imposes no
  bound on its side. The result is reversed when the requested order of the page
  disagrees with the order of the input, and then cut to at most \<^verbatim>\<open>Limit\<close> elements when
  \<^verbatim>\<open>Limit\<close> is positive.
\<close>

theorem Page_between_boundaries:
  fixes p q :: "'a::{zero,linorder} Page"
  shows "(sorted xs \<and> min_before_max p xs \<longrightarrow> PageAsc (Some p) xs = PageAsc_spec p xs) \<and>
         (sorted (rev ys) \<and> min_before_max q ys \<longrightarrow> PageDesc (Some q) ys = PageDesc_spec q ys)"
proof (intro conjI impI)
  let ?lo = "Value (Page_Min p)" and ?hi = "Value (Page_Max p)"
  assume a: "sorted xs \<and> min_before_max p xs"
  have "\<forall>i j. locate ?lo xs = Some i \<and> locate ?hi xs = Some j \<longrightarrow> i < j"
  proof (intro allI impI)
    fix i j
    assume h: "locate ?lo xs = Some i \<and> locate ?hi xs = Some j"
    then have "?lo < ?hi" using a by (simp add: min_before_max_def)
    then show "i < j"
      using a h sorted_first_index_less [of xs ?lo ?hi] locate_Some [of ?lo xs i]
        locate_Some [of ?hi xs j] by simp
  qed
  from slice_code_eq_spec [OF this] show "PageAsc (Some p) xs = PageAsc_spec p xs"
    by (simp only: PageAsc_code PageAsc_spec_def)
next
  let ?lo = "Value (Page_Min q)" and ?hi = "Value (Page_Max q)"
  assume a: "sorted (rev ys) \<and> min_before_max q ys"
  have "\<forall>i j. locate ?hi ys = Some i \<and> locate ?lo ys = Some j \<longrightarrow> i < j"
  proof (intro allI impI)
    fix i j
    assume h: "locate ?hi ys = Some i \<and> locate ?lo ys = Some j"
    then have "?lo < ?hi" using a by (simp add: min_before_max_def)
    then show "i < j"
      using a h sorted_rev_first_index_less [of ys ?lo ?hi] locate_Some [of ?lo ys j]
        locate_Some [of ?hi ys i] by simp
  qed
  from slice_code_eq_spec [OF this] show "PageDesc (Some q) ys = PageDesc_spec q ys"
    by (simp only: PageDesc_code PageDesc_spec_def)
qed


text \<open>
  The theorem at concrete pages: "since 2, max 5, limit 2" over an ascending input gives
  the two newest keys between the bounds, newest first; "min 1, max 5, limit 2" over a
  descending input gives the two oldest keys between the bounds, oldest first.
\<close>

theorem Page_between_boundaries_witness:
  "sorted [1, 2, 3, 4, 5 :: int] \<and> min_before_max since_2_max_5 [1, 2, 3, 4, 5] \<and>
   PageAsc (Some since_2_max_5) [1, 2, 3, 4, 5] = PageAsc_spec since_2_max_5 [1, 2, 3, 4, 5] \<and>
   PageAsc (Some since_2_max_5) [1, 2, 3, 4, 5] = [4, 3] \<and>
   sorted (rev [5, 4, 3, 2, 1 :: int]) \<and> min_before_max min_1_max_5 [5, 4, 3, 2, 1] \<and>
   PageDesc (Some min_1_max_5) [5, 4, 3, 2, 1] = PageDesc_spec min_1_max_5 [5, 4, 3, 2, 1] \<and>
   PageDesc (Some min_1_max_5) [5, 4, 3, 2, 1] = [2, 3]"
proof -
  have s1: "sorted [1, 2, 3, 4, 5 :: int]" by simp
  have m1: "min_before_max since_2_max_5 [1, 2, 3, 4, 5]" by code_simp
  have s2: "sorted (rev [5, 4, 3, 2, 1 :: int])" by simp
  have m2: "min_before_max min_1_max_5 [5, 4, 3, 2, 1]" by code_simp
  have r1: "PageAsc (Some since_2_max_5) [1, 2, 3, 4, 5] = [4, 3]" by code_simp
  have r2: "PageDesc (Some min_1_max_5) [5, 4, 3, 2, 1] = [2, 3]" by code_simp
  from Page_between_boundaries [of "[1, 2, 3, 4, 5]" since_2_max_5 "[5, 4, 3, 2, 1]" min_1_max_5]
  show ?thesis using s1 m1 s2 m2 r1 r2 by blast
qed

text \<open>
  Without the side condition the contract fails. With minimum 4 and maximum 2 over
  \<open>[1, 2, 3, 4, 5]\<close> nothing lies strictly between the boundaries, but \<^verbatim>\<open>PageAsc\<close>
  searches the maximum only in the part after the minimum, does not find it, and
  returns \<open>[5]\<close>.
\<close>

theorem Page_between_boundaries_counterexample:
  "sorted [1, 2, 3, 4, 5 :: int] \<and>
   PageAsc (Some min_4_max_2) [1, 2, 3, 4, 5] = [5] \<and>
   PageAsc_spec min_4_max_2 [1, 2, 3, 4, 5] = [] \<and>
   PageAsc (Some min_4_max_2) [1, 2, 3, 4, 5] \<noteq> PageAsc_spec min_4_max_2 [1, 2, 3, 4, 5]"
proof -
  have a: "PageAsc (Some min_4_max_2) [1, 2, 3, 4, 5] = [5]" by code_simp
  have b: "PageAsc_spec min_4_max_2 [1, 2, 3, 4, 5] = []" by code_simp
  show ?thesis by (simp add: a b)
qed

subsection \<open>The round trip\<close>

lemma first_index_nth: "distinct xs \<Longrightarrow> k < length xs \<Longrightarrow> first_index (xs ! k) xs = k"
proof (induction xs arbitrary: k)
  case Nil
  then show ?case by simp
next
  case (Cons x xs)
  then show ?case by (cases k) (auto simp: first_index_def)
qed

lemma locate_nth:
  "distinct xs \<Longrightarrow> k < length xs \<Longrightarrow> \<not> zero (xs ! k) \<Longrightarrow> locate (xs ! k) xs = Some k"
  by (simp add: locate_def first_index_nth)

lemma locate_zero: "locate 0 xs = None"
  by (simp add: locate_def zero_def)

lemma PageDesc_cursor:
  assumes "cursor_page l p"
  shows "PageDesc (Some p) xs =
     truncate_spec l (case locate (Value (Page_Max p)) xs of None \<Rightarrow> xs | Some i \<Rightarrow> drop (Suc i) xs)"
proof -
  have o: "order p \<noteq> OrderAscending"
    using assms by (simp add: cursor_page_def order_def OrderAscending_def)
  have m: "Value (Page_Min p) = 0" "Limit p = l" using assms by (simp_all add: cursor_page_def)
  show ?thesis
    by (simp only: PageDesc_code m locate_zero Let_def option.case o if_False id_apply)
qed

lemma Next_cursor:
  assumes "cursor_page l p" "\<not> zero v"
  shows "\<exists>p'. Next (Some p) v = Some p' \<and> cursor_page l p' \<and> Value (Page_Max p') = v"
  using assms by (simp add: Next_def cursor_page_def zero_Boundary_def New_def)

lemma enumerate_from:
  fixes xs :: "'a::zero list"
  assumes d: "distinct xs" and nz: "\<forall>x \<in> set xs. \<not> zero x" and l: "0 < l"
  shows "cursor_page l p \<Longrightarrow> k \<le> length xs \<Longrightarrow>
         (if k = 0 then Value (Page_Max p) = 0 else Value (Page_Max p) = xs ! (k - 1)) \<Longrightarrow>
         length xs - k < fuel \<Longrightarrow>
         \<exists>pgs. enumerate_pages PageDesc fuel p xs = Some pgs \<and> concat pgs = drop k xs \<and>
               (\<forall>pg \<in> set pgs. int (length pg) \<le> l)"
proof (induction fuel arbitrary: p k)
  case 0
  then show ?case by simp
next
  case (Suc fuel)
  let ?rest = "drop k xs"
  have loc: "(case locate (Value (Page_Max p)) xs of None \<Rightarrow> xs | Some i \<Rightarrow> drop (Suc i) xs) = ?rest"
  proof (cases "k = 0")
    case True
    with Suc.prems show ?thesis by (simp add: locate_zero)
  next
    case False
    then have k1: "k - 1 < length xs" using Suc.prems by simp
    have "locate (xs ! (k - 1)) xs = Some (k - 1)"
      using locate_nth [OF d k1] nz k1 by simp
    with False Suc.prems show ?thesis by simp
  qed
  have pg: "PageDesc (Some p) xs = take (nat l) ?rest"
    using PageDesc_cursor [OF Suc.prems(1), of xs] l by (simp add: loc truncate_spec_def)
  let ?pg = "take (nat l) ?rest"
  have len_pg: "int (length ?pg) \<le> l" using l by simp
  show ?case
  proof (cases "?rest = []")
    case True
    then have "Next (Some p) (last_or_zero ?pg) = None"
      by (simp add: last_or_zero_def Next_def zero_def)
    then show ?thesis using True pg l by simp
  next
    case False
    then have klt: "k < length xs" by simp
    define n where "n = min (nat l) (length xs - k)"
    have npos: "0 < n" using l klt by (simp add: n_def)
    have lenpg: "length ?pg = n" by (simp add: n_def)
    have pgne: "?pg \<noteq> []" using npos lenpg by auto
    have lastpg: "last ?pg = xs ! (k + n - 1)"
    proof -
      have "last ?pg = ?pg ! (n - 1)" using pgne lenpg by (simp add: last_conv_nth)
      also have "\<dots> = ?rest ! (n - 1)"
      proof (rule nth_take)
        have "n \<le> nat l" by (simp add: n_def)
        then show "n - 1 < nat l" using npos by arith
      qed
      also have "\<dots> = xs ! (k + (n - 1))" using klt by simp
      finally show ?thesis using npos by simp
    qed
    have kn: "k + n \<le> length xs" using klt by (simp add: n_def)
    have "xs ! (k + n - 1) \<in> set xs" using kn npos by simp
    then have nzl: "\<not> zero (last_or_zero ?pg)"
      using nz pgne lastpg by (simp add: last_or_zero_def)
    from Next_cursor [OF Suc.prems(1) nzl] obtain p' where
      p': "Next (Some p) (last_or_zero ?pg) = Some p'" "cursor_page l p'"
          "Value (Page_Max p') = last_or_zero ?pg" by blast
    have v: "(if k + n = 0 then Value (Page_Max p') = 0 else Value (Page_Max p') = xs ! (k + n - 1))"
      using npos p'(3) pgne lastpg by (simp add: last_or_zero_def)
    have f: "length xs - (k + n) < fuel" using Suc.prems(4) npos klt by simp
    from Suc.IH [OF p'(2) kn v f] obtain pgs where
      pgs: "enumerate_pages PageDesc fuel p' xs = Some pgs" "concat pgs = drop (k + n) xs"
           "\<forall>pg \<in> set pgs. int (length pg) \<le> l" by blast
    have "?pg @ drop (k + n) xs = ?rest"
    proof -
      have "?pg = take n ?rest"
      proof (cases "nat l \<le> length xs - k")
        case True
        then have "n = nat l" by (simp add: n_def)
        then show ?thesis by simp
      next
        case False
        then have "n = length xs - k" by (simp add: n_def)
        with False show ?thesis by simp
      qed
      moreover have "drop (k + n) xs = drop n ?rest" by (simp add: add.commute)
      ultimately show ?thesis by (simp only: append_take_drop_id)
    qed
    then show ?thesis using pgs p'(1) pg len_pg by simp
  qed
qed

text \<open>
  Claim C3, as amended. For every sequence of N unique non-zero keys (in particular one
  sorted descending, newest first) and every positive limit L, starting from a page with
  limit L and no boundaries, repeatedly calling \<^verbatim>\<open>PageDesc\<close> on the whole sequence and
  deriving the continuation with \<^verbatim>\<open>Next\<close> from the last element of the page returned
  enumerates the sequence exactly once, in order, with no gaps and no repeats, in pages
  of at most L keys. The loop terminates within N + 1 rounds: the page after the last key
  is empty, its candidate boundary is the zero value, and \<^verbatim>\<open>Next\<close> returns nil.
\<close>

theorem paging_round_trip:
  fixes xs :: "'a::zero list"
  assumes "distinct xs" and "0 \<notin> set xs" and "0 < l"
  shows "\<exists>pgs. enumerate_pages PageDesc (length xs + 1) (first_Page l) xs = Some pgs \<and>
               concat pgs = xs \<and> (\<forall>pg \<in> set pgs. int (length pg) \<le> l)"
proof -
  have nz: "\<forall>x \<in> set xs. \<not> zero x" using assms(2) by (auto simp: zero_def)
  have c: "cursor_page l (first_Page l :: 'a Page)"
    by (simp add: cursor_page_def first_Page_def zero_Boundary_def)
  have v: "(if (0::nat) = 0 then Value (Page_Max (first_Page l :: 'a Page)) = 0
            else Value (Page_Max (first_Page l :: 'a Page)) = xs ! (0 - 1))"
    by (simp add: first_Page_def zero_Boundary_def)
  from enumerate_from [OF assms(1) nz assms(3) c _ v, of "length xs + 1"] show ?thesis by simp
qed


text \<open>The round trip over five descending keys with limit 2.\<close>

theorem paging_round_trip_witness:
  "distinct [5, 4, 3, 2, 1 :: int] \<and> 0 \<notin> set [5, 4, 3, 2, 1 :: int] \<and> (0::int) < 2 \<and>
   enumerate_pages PageDesc (length [5, 4, 3, 2, 1 :: int] + 1) (first_Page 2) [5, 4, 3, 2, 1 :: int]
     = Some [[5, 4], [3, 2], [1], []] \<and>
   (\<exists>pgs. enumerate_pages PageDesc (length [5, 4, 3, 2, 1 :: int] + 1) (first_Page 2) [5, 4, 3, 2, 1 :: int] = Some pgs \<and>
      concat pgs = [5, 4, 3, 2, 1] \<and> (\<forall>pg \<in> set pgs. int (length pg) \<le> 2))"
proof -
  have d: "distinct [5, 4, 3, 2, 1 :: int]" by simp
  have z: "0 \<notin> set [5, 4, 3, 2, 1 :: int]" by simp
  have l: "(0::int) < 2" by simp
  have e: "enumerate_pages PageDesc (length [5, 4, 3, 2, 1 :: int] + 1) (first_Page 2) [5, 4, 3, 2, 1 :: int]
     = Some [[5, 4], [3, 2], [1], []]" by code_simp
  from paging_round_trip [OF d z l] show ?thesis using d z l e by blast
qed

text \<open>
  With \<^verbatim>\<open>PageAsc\<close> over an ascending sequence the round trip fails: \<^verbatim>\<open>Next\<close> sets the
  maximum boundary, and \<^verbatim>\<open>PageAsc\<close> returns what lies before the maximum. Over
  \<open>[1, 2, 3]\<close> with limit 2 the pages are \<open>[1, 2]\<close>, \<open>[1]\<close> and \<open>[]\<close>: the key 1 comes
  twice and the key 3 never. A zero key stops the loop early: over \<open>[0, 1, 2]\<close> with
  limit 1 the only page is \<open>[0]\<close>.
\<close>

theorem paging_round_trip_counterexample:
  "sorted [1, 2, 3 :: int] \<and> distinct [1, 2, 3 :: int] \<and>
   enumerate_pages PageAsc 10 (first_Page 2) [1, 2, 3 :: int] = Some [[1, 2], [1], []] \<and>
   sorted [0, 1, 2 :: int] \<and> distinct [0, 1, 2 :: int] \<and>
   enumerate_pages PageAsc 10 (first_Page 1) [0, 1, 2 :: int] = Some [[0]]"
proof -
  have a: "enumerate_pages PageAsc 10 (first_Page 2) [1, 2, 3 :: int] = Some [[1, 2], [1], []]"
    by code_simp
  have b: "enumerate_pages PageAsc 10 (first_Page 1) [0, 1, 2 :: int] = Some [[0]]"
    by code_simp
  show ?thesis by (simp add: a b)
qed

section \<open>The federation dispatcher: what the handlers do\<close>

lemma log_if_err_simps [simp]:
  "log_if_err None m = []" "log_if_err (Some err) m = [Log_Error m err]"
  by (simp_all add: log_if_err_def)

subsection \<open>Interaction approval\<close>

text \<open>
  Claim C1, as amended. For every federation Create message for a reply, like or boost
  whose resolved object has \<^verbatim>\<open>PendingApproval\<close> true and \<^verbatim>\<open>PreApproved\<close> false, the handler,
  after resolving the object, only calls the pending-interaction notification (logging
  its error, if any) and returns nil: no approval write, no Accept, no counter
  increment, no fan-out. With \<^verbatim>\<open>PendingApproval\<close> and \<^verbatim>\<open>PreApproved\<close> both true the handler
  first writes the approval and returns an error right there if the write fails, then
  sends the Accept and returns an error right there if the send fails, and only then goes
  on: for a reply, the counter increment, the invalidation of the replied-to status, and
  the timeline fan-out; for a boost, the counter increment, the timeline fan-out, the
  boost notification, and the invalidation of the boosted status; for a like, the like
  notification and the invalidation of the liked status, with no counter increment and
  no fan-out.
\<close>

theorem approval_gating:
  "(CreateStatus_resolve e fMsg = (Inr (status, Some sa), pre) \<and>
    pending_only (PendingApproval status) (PreApproved status) \<longrightarrow>
      CreateStatus e fMsg =
        (None, pre @ Call_notifyPendingReply status
                 # log_if_err (notifyPendingReply e status) ''error notifying pending reply: ''))
   \<and>
   (GTSModel fMsg = Model_StatusFave fave0 \<and> PopulateStatusFave e fave0 = Inr fave \<and>
    pending_only (Fave_PendingApproval fave) (Fave_PreApproved fave) \<longrightarrow>
      CreateLike e fMsg =
        (None, Call_PopulateStatusFave fave0 # Call_notifyPendingFave fave
                 # log_if_err (notifyPendingFave e fave) ''error notifying pending fave: ''))
   \<and>
   (GTSModel fMsg = Model_Status boost0 \<and>
    EnrichAnnounce e boost0 (Username (Receiving fMsg)) = Inr boost \<and>
    pending_only (PendingApproval boost) (PreApproved boost) \<longrightarrow>
      CreateAnnounce e fMsg =
        (None, Call_EnrichAnnounce boost0 (Username (Receiving fMsg)) # Call_notifyPendingAnnounce boost
                 # log_if_err (notifyPendingAnnounce e boost) ''error notifying pending boost: ''))
   \<and>
   (CreateStatus_resolve e fMsg = (Inr (status, Some sa), pre) \<and>
    pending_preapproved (PendingApproval status) (PreApproved status) \<longrightarrow>
      CreateStatus e fMsg =
        (case approveReply e status of
           Inl err \<Rightarrow>
             (Some (gtserror_Newf ''workers.(*fediAPI).CreateStatus'' ''error pre-approving reply: '' err),
              pre @ [Call_approveReply status])
         | Inr (approval, status') \<Rightarrow>
             (case AcceptInteraction e approval of
                Some err \<Rightarrow>
                  (Some (gtserror_Newf ''workers.(*fediAPI).CreateStatus''
                     ''error federating pre-approval of reply: '' err),
                   pre @ [Call_approveReply status, Call_AcceptInteraction approval])
              | None \<Rightarrow>
                  (None,
                   pre @ [Call_approveReply status, Call_AcceptInteraction approval,
                          Call_incrementStatusesCount (Requesting fMsg) status']
                       @ log_if_err (incrementStatusesCount e (Requesting fMsg) status')
                           ''error updating account stats: ''
                       @ (if InReplyToID status' \<noteq> []
                          then [Call_invalidateStatusFromTimelines (InReplyToID status')] else [])
                       @ [Call_timelineAndNotifyStatus status']
                       @ log_if_err (timelineAndNotifyStatus e status')
                           ''error timelining and notifying status: ''))))
   \<and>
   (GTSModel fMsg = Model_Status boost0 \<and>
    EnrichAnnounce e boost0 (Username (Receiving fMsg)) = Inr boost \<and>
    pending_preapproved (PendingApproval boost) (PreApproved boost) \<longrightarrow>
      CreateAnnounce e fMsg =
        (case approveAnnounce e boost of
           Inl err \<Rightarrow>
             (Some (gtserror_Newf ''workers.(*fediAPI).CreateAnnounce'' ''error pre-approving boost: '' err),
              [Call_EnrichAnnounce boost0 (Username (Receiving fMsg)), Call_approveAnnounce boost])
         | Inr (approval, boost') \<Rightarrow>
             (case AcceptInteraction e approval of
                Some err \<Rightarrow>
                  (Some (gtserror_Newf ''workers.(*fediAPI).CreateAnnounce''
                     ''error federating pre-approval of boost: '' err),
                   [Call_EnrichAnnounce boost0 (Username (Receiving fMsg)), Call_approveAnnounce boost,
                    Call_AcceptInteraction approval])
              | None \<Rightarrow>
                  (None,
                   [Call_EnrichAnnounce boost0 (Username (Receiving fMsg)), Call_approveAnnounce boost,
                    Call_AcceptInteraction approval,
                    Call_incrementStatusesCount (Requesting fMsg) boost']
                   @ log_if_err (incrementStatusesCount e (Requesting fMsg) boost')
                       ''error updating account stats: ''
                   @ [Call_timelineAndNotifyStatus boost']
                   @ log_if_err (timelineAndNotifyStatus e boost')
                       ''error timelining and notifying status: ''
                   @ [Call_notifyAnnounce boost']
                   @ log_if_err (notifyAnnounce e boost') ''error notifying announce: ''
                   @ [Call_invalidateStatusFromTimelines (BoostOfID boost')]))))
   \<and>
   (GTSModel fMsg = Model_StatusFave fave0 \<and> PopulateStatusFave e fave0 = Inr fave \<and>
    pending_preapproved (Fave_PendingApproval fave) (Fave_PreApproved fave) \<longrightarrow>
      CreateLike e fMsg =
        (case approveFave e fave of
           Inl err \<Rightarrow>
             (Some (gtserror_Newf ''workers.(*fediAPI).CreateLike'' ''error pre-approving fave: '' err),
              [Call_PopulateStatusFave fave0, Call_approveFave fave])
         | Inr (approval, fave') \<Rightarrow>
             (case AcceptInteraction e approval of
                Some err \<Rightarrow>
                  (Some (gtserror_Newf ''workers.(*fediAPI).CreateLike''
                     ''error federating pre-approval of fave: '' err),
                   [Call_PopulateStatusFave fave0, Call_approveFave fave, Call_AcceptInteraction approval])
              | None \<Rightarrow>
                  (None,
                   [Call_PopulateStatusFave fave0, Call_approveFave fave, Call_AcceptInteraction approval,
                    Call_notifyFave fave']
                   @ log_if_err (notifyFave e fave') ''error notifying fave: ''
                   @ [Call_invalidateStatusFromTimelines (StatusID fave')]))))"
proof (intro conjI impI)
  assume "CreateStatus_resolve e fMsg = (Inr (status, Some sa), pre) \<and>
    pending_only (PendingApproval status) (PreApproved status)"
  then show "CreateStatus e fMsg =
        (None, pre @ Call_notifyPendingReply status
                 # log_if_err (notifyPendingReply e status) ''error notifying pending reply: '')"
    by (simp add: CreateStatus_def CreateStatus_resolved_def pending_only_def)
next
  assume "GTSModel fMsg = Model_StatusFave fave0 \<and> PopulateStatusFave e fave0 = Inr fave \<and>
    pending_only (Fave_PendingApproval fave) (Fave_PreApproved fave)"
  then show "CreateLike e fMsg =
        (None, Call_PopulateStatusFave fave0 # Call_notifyPendingFave fave
                 # log_if_err (notifyPendingFave e fave) ''error notifying pending fave: '')"
    by (simp add: CreateLike_def pending_only_def)
next
  assume "GTSModel fMsg = Model_Status boost0 \<and>
    EnrichAnnounce e boost0 (Username (Receiving fMsg)) = Inr boost \<and>
    pending_only (PendingApproval boost) (PreApproved boost)"
  then show "CreateAnnounce e fMsg =
        (None, Call_EnrichAnnounce boost0 (Username (Receiving fMsg)) # Call_notifyPendingAnnounce boost
                 # log_if_err (notifyPendingAnnounce e boost) ''error notifying pending boost: '')"
    by (simp add: CreateAnnounce_def pending_only_def)
next
  assume "CreateStatus_resolve e fMsg = (Inr (status, Some sa), pre) \<and>
    pending_preapproved (PendingApproval status) (PreApproved status)"
  then show "CreateStatus e fMsg = (case approveReply e status of
           Inl err \<Rightarrow>
             (Some (gtserror_Newf ''workers.(*fediAPI).CreateStatus'' ''error pre-approving reply: '' err),
              pre @ [Call_approveReply status])
         | Inr (approval, status') \<Rightarrow>
             (case AcceptInteraction e approval of
                Some err \<Rightarrow>
                  (Some (gtserror_Newf ''workers.(*fediAPI).CreateStatus''
                     ''error federating pre-approval of reply: '' err),
                   pre @ [Call_approveReply status, Call_AcceptInteraction approval])
              | None \<Rightarrow>
                  (None,
                   pre @ [Call_approveReply status, Call_AcceptInteraction approval,
                          Call_incrementStatusesCount (Requesting fMsg) status']
                       @ log_if_err (incrementStatusesCount e (Requesting fMsg) status')
                           ''error updating account stats: ''
                       @ (if InReplyToID status' \<noteq> []
                          then [Call_invalidateStatusFromTimelines (InReplyToID status')] else [])
                       @ [Call_timelineAndNotifyStatus status']
                       @ log_if_err (timelineAndNotifyStatus e status')
                           ''error timelining and notifying status: '')))"
    by (simp add: CreateStatus_def CreateStatus_resolved_def pending_preapproved_def
        split: sum.splits option.splits prod.splits)
next
  assume "GTSModel fMsg = Model_Status boost0 \<and>
    EnrichAnnounce e boost0 (Username (Receiving fMsg)) = Inr boost \<and>
    pending_preapproved (PendingApproval boost) (PreApproved boost)"
  then show "CreateAnnounce e fMsg =
        (case approveAnnounce e boost of
           Inl err \<Rightarrow>
             (Some (gtserror_Newf ''workers.(*fediAPI).CreateAnnounce'' ''error pre-approving boost: '' err),
              [Call_EnrichAnnounce boost0 (Username (Receiving fMsg)), Call_approveAnnounce boost])
         | Inr (approval, boost') \<Rightarrow>
             (case AcceptInteraction e approval of
                Some err \<Rightarrow>
                  (Some (gtserror_Newf ''workers.(*fediAPI).CreateAnnounce''
                     ''error federating pre-approval of boost: '' err),
                   [Call_EnrichAnnounce boost0 (Username (Receiving fMsg)), Call_approveAnnounce boost,
                    Call_AcceptInteraction approval])
              | None \<Rightarrow>
                  (None,
                   [Call_EnrichAnnounce boost0 (Username (Receiving fMsg)), Call_approveAnnounce boost,
                    Call_AcceptInteraction approval,
                    Call_incrementStatusesCount (Requesting fMsg) boost']
                   @ log_if_err (incrementStatusesCount e (Requesting fMsg) boost')
                       ''error updating account stats: ''
                   @ [Call_timelineAndNotifyStatus boost']
                   @ log_if_err (timelineAndNotifyStatus e boost')
                       ''error timelining and notifying status: ''
                   @ [Call_notifyAnnounce boost']
                   @ log_if_err (notifyAnnounce e boost') ''error notifying announce: ''
                   @ [Call_invalidateStatusFromTimelines (BoostOfID boost')])))"
    by (simp add: CreateAnnounce_def pending_preapproved_def
        split: sum.splits option.splits prod.splits)
next
  assume "GTSModel fMsg = Model_StatusFave fave0 \<and> PopulateStatusFave e fave0 = Inr fave \<and>
    pending_preapproved (Fave_PendingApproval fave) (Fave_PreApproved fave)"
  then show "CreateLike e fMsg =
        (case approveFave e fave of
           Inl err \<Rightarrow>
             (Some (gtserror_Newf ''workers.(*fediAPI).CreateLike'' ''error pre-approving fave: '' err),
              [Call_PopulateStatusFave fave0, Call_approveFave fave])
         | Inr (approval, fave') \<Rightarrow>
             (case AcceptInteraction e approval of
                Some err \<Rightarrow>
                  (Some (gtserror_Newf ''workers.(*fediAPI).CreateLike''
                     ''error federating pre-approval of fave: '' err),
                   [Call_PopulateStatusFave fave0, Call_approveFave fave, Call_AcceptInteraction approval])
              | None \<Rightarrow>
                  (None,
                   [Call_PopulateStatusFave fave0, Call_approveFave fave, Call_AcceptInteraction approval,
                    Call_notifyFave fave']
                   @ log_if_err (notifyFave e fave') ''error notifying fave: ''
                   @ [Call_invalidateStatusFromTimelines (StatusID fave')])))"
    by (simp add: CreateLike_def pending_preapproved_def
        split: sum.splits option.splits prod.splits)
qed


text \<open>A pending reply and a pre-approved reply from alice to bob, every call succeeding.\<close>

theorem approval_gating_witness:
  "CreateStatus_resolve (env_resolving reply_pending) msg_note =
     (Inr (reply_pending, Some note_1), [Call_RefreshStatus ''bob'' (bareStatus note_1) note_1]) \<and>
   pending_only (PendingApproval reply_pending) (PreApproved reply_pending) \<and>
   CreateStatus (env_resolving reply_pending) msg_note =
     (None, [Call_RefreshStatus ''bob'' (bareStatus note_1) note_1,
             Call_notifyPendingReply reply_pending]) \<and>
   CreateStatus_resolve (env_resolving reply_preapproved) msg_note =
     (Inr (reply_preapproved, Some note_1), [Call_RefreshStatus ''bob'' (bareStatus note_1) note_1]) \<and>
   pending_preapproved (PendingApproval reply_preapproved) (PreApproved reply_preapproved) \<and>
   CreateStatus (env_resolving reply_preapproved) msg_note =
     (None, [Call_RefreshStatus ''bob'' (bareStatus note_1) note_1,
             Call_approveReply reply_preapproved, Call_AcceptInteraction approval_1,
             Call_incrementStatusesCount alice reply_preapproved,
             Call_invalidateStatusFromTimelines ''01PARENT'',
             Call_timelineAndNotifyStatus reply_preapproved])"
proof -
  let ?tr = "[Call_RefreshStatus ''bob'' (bareStatus note_1) note_1]"
  have r1: "CreateStatus_resolve (env_resolving reply_pending) msg_note =
      (Inr (reply_pending, Some note_1), ?tr)"
    by (simp add: CreateStatus_resolve_def env_resolving_def env_ok_def msg_note_def bob_def)
  have p1: "pending_only (PendingApproval reply_pending) (PreApproved reply_pending)"
    by (simp add: pending_only_def reply_pending_def new_Status_def PtrOrValue_def)
  have r2: "CreateStatus_resolve (env_resolving reply_preapproved) msg_note =
      (Inr (reply_preapproved, Some note_1), ?tr)"
    by (simp add: CreateStatus_resolve_def env_resolving_def env_ok_def msg_note_def bob_def)
  have p2: "pending_preapproved (PendingApproval reply_preapproved) (PreApproved reply_preapproved)"
    by (simp add: pending_preapproved_def reply_preapproved_def reply_pending_def new_Status_def
        PtrOrValue_def)
  note t1 = approval_gating [where e = "env_resolving reply_pending" and fMsg = msg_note
      and status = reply_pending and sa = note_1
      and pre = "[Call_RefreshStatus ''bob'' (bareStatus note_1) note_1]",
      THEN conjunct1, THEN mp, OF conjI [OF r1 p1]]
  have g1': "CreateStatus (env_resolving reply_pending) msg_note =
      (None, [Call_RefreshStatus ''bob'' (bareStatus note_1) note_1,
              Call_notifyPendingReply reply_pending])"
    unfolding t1 by (simp add: env_resolving_def env_ok_def)
  note t2 = approval_gating [where e = "env_resolving reply_preapproved" and fMsg = msg_note
      and status = reply_preapproved and sa = note_1
      and pre = "[Call_RefreshStatus ''bob'' (bareStatus note_1) note_1]",
      THEN conjunct2, THEN conjunct2, THEN conjunct2, THEN conjunct1, THEN mp, OF conjI [OF r2 p2]]
  have g2: "CreateStatus (env_resolving reply_preapproved) msg_note =
      (None, [Call_RefreshStatus ''bob'' (bareStatus note_1) note_1,
             Call_approveReply reply_preapproved, Call_AcceptInteraction approval_1,
             Call_incrementStatusesCount alice reply_preapproved,
             Call_invalidateStatusFromTimelines ''01PARENT'',
             Call_timelineAndNotifyStatus reply_preapproved])"
    unfolding t2
    by (simp add: env_resolving_def env_ok_def msg_note_def)
       (simp add: reply_preapproved_def reply_pending_def new_Status_def)
  show ?thesis using r1 p1 r2 p2 g1' g2 by blast
qed

text \<open>
  A pre-approved like, every call succeeding: after the approval and the Accept the
  handler notifies the like and invalidates the liked status; it increments no counter
  and fans nothing out.
\<close>

theorem approval_gating_counterexample:
  "GTSModel msg_like = Model_StatusFave fave_preapproved \<and>
   PopulateStatusFave env_ok fave_preapproved = Inr fave_preapproved \<and>
   pending_preapproved (Fave_PendingApproval fave_preapproved) (Fave_PreApproved fave_preapproved) \<and>
   CreateLike env_ok msg_like =
     (None, [Call_PopulateStatusFave fave_preapproved, Call_approveFave fave_preapproved,
             Call_AcceptInteraction approval_1, Call_notifyFave fave_preapproved,
             Call_invalidateStatusFromTimelines ''01PARENT'']) \<and>
   filter is_counter_increment (snd (CreateLike env_ok msg_like)) = [] \<and>
   filter is_fan_out (snd (CreateLike env_ok msg_like)) = []"
proof -
  have c: "CreateLike env_ok msg_like =
     (None, [Call_PopulateStatusFave fave_preapproved, Call_approveFave fave_preapproved,
             Call_AcceptInteraction approval_1, Call_notifyFave fave_preapproved,
             Call_invalidateStatusFromTimelines ''01PARENT''])"
    by (simp add: CreateLike_def env_ok_def msg_like_def fave_preapproved_def PtrOrValue_def)
  show ?thesis
    unfolding c
    by (simp add: env_ok_def msg_like_def fave_preapproved_def pending_preapproved_def PtrOrValue_def)
qed

subsection \<open>Duplicate delivery\<close>

text \<open>
  Claim C2. For every federation Create-Note message, if the resolver (\<^verbatim>\<open>RefreshStatus\<close>
  for a message with a model, \<^verbatim>\<open>GetStatusByURI\<close> for a forwarded IRI) returns no error and
  no statusable, because another delivery created the status already, \<^verbatim>\<open>CreateStatus\<close>
  returns nil and its whole trace is the call of the resolver: no notification, no
  counter update, no timeline invalidation, no fan-out.
\<close>

theorem CreateStatus_already_created:
  "(APObject fMsg = Some (AP_Statusable sa) \<and>
    RefreshStatus e (Username (Receiving fMsg)) (bareStatus sa) sa = Inr (status, None) \<longrightarrow>
      CreateStatus e fMsg = (None, [Call_RefreshStatus (Username (Receiving fMsg)) (bareStatus sa) sa]))
   \<and>
   (APObject fMsg = None \<and> APIRI fMsg = Some iri \<and>
    GetStatusByURI e (Username (Receiving fMsg)) iri = Inr (status, None) \<longrightarrow>
      CreateStatus e fMsg = (None, [Call_GetStatusByURI (Username (Receiving fMsg)) iri]))"
  by (simp add: CreateStatus_def CreateStatus_resolve_def CreateStatus_resolved_def)

text \<open>Both resolution paths, in the environment where the status exists already.\<close>

theorem CreateStatus_already_created_witness:
  "APObject msg_note = Some (AP_Statusable note_1) \<and>
   RefreshStatus env_already_created (Username (Receiving msg_note)) (bareStatus note_1) note_1
     = Inr (bareStatus note_1, None) \<and>
   CreateStatus env_already_created msg_note =
     (None, [Call_RefreshStatus ''bob'' (bareStatus note_1) note_1]) \<and>
   APObject msg_forwarded = None \<and> APIRI msg_forwarded = Some ''https://remote.example/statuses/1'' \<and>
   CreateStatus env_already_created msg_forwarded =
     (None, [Call_GetStatusByURI ''bob'' ''https://remote.example/statuses/1''])"
proof -
  have a: "APObject msg_note = Some (AP_Statusable note_1)" by (simp add: msg_note_def)
  have b: "RefreshStatus env_already_created (Username (Receiving msg_note)) (bareStatus note_1) note_1
     = Inr (bareStatus note_1, None)" by (simp add: env_already_created_def env_ok_def)
  have c: "APObject msg_forwarded = None \<and> APIRI msg_forwarded = Some ''https://remote.example/statuses/1''"
    by (simp add: msg_forwarded_def msg_note_def)
  have d: "GetStatusByURI env_already_created (Username (Receiving msg_forwarded))
      ''https://remote.example/statuses/1''
      = Inr (new_Status\<lparr>Status_URI := ''https://remote.example/statuses/1''\<rparr>, None)"
    by (simp add: env_already_created_def env_ok_def)
  have u: "Username (Receiving msg_note) = ''bob''" "Username (Receiving msg_forwarded) = ''bob''"
    by (simp_all add: msg_forwarded_def msg_note_def bob_def)
  from CreateStatus_already_created [where e = env_already_created and fMsg = msg_note
      and sa = note_1 and status = "bareStatus note_1"] a b
  have e1: "CreateStatus env_already_created msg_note =
      (None, [Call_RefreshStatus ''bob'' (bareStatus note_1) note_1])"
    by (simp add: u)
  from CreateStatus_already_created [where e = env_already_created and fMsg = msg_forwarded
      and iri = "''https://remote.example/statuses/1''"
      and status = "new_Status\<lparr>Status_URI := ''https://remote.example/statuses/1''\<rparr>"] c d
  have e2: "CreateStatus env_already_created msg_forwarded =
      (None, [Call_GetStatusByURI ''bob'' ''https://remote.example/statuses/1''])"
    by (simp add: u)
  show ?thesis using a b c e1 e2 by blast
qed


subsection \<open>Blocks\<close>

lemma calls_append: "calls (xs @ ys) = calls xs @ calls ys"
  by (simp add: calls_def)

lemma logs_append: "logs (xs @ ys) = logs xs @ logs ys"
  by (simp add: logs_def)

lemma calls_log_if_err: "calls (log_if_err r m) = []"
  by (cases r) (simp_all add: calls_def)

lemma logs_log_if_err: "logs (log_if_err r m) = log_if_err r m"
  by (cases r) (simp_all add: logs_def)

lemma calls_steps:
  "calls (wipe_step e t a b m) = [Call_WipeItemsFromAccountID t a b]"
  "calls (follow_step e a b m) = [Call_DeleteFollow a b]"
  "calls (follow_request_step e a b m) = [Call_DeleteFollowRequest a b]"
  using calls_log_if_err
  by (simp_all add: wipe_step_def follow_step_def follow_request_step_def calls_def)

lemma logs_steps:
  "logs (wipe_step e t a b m) = log_if_err (WipeItemsFromAccountID e t a b) m"
  "logs (follow_step e a b m) = log_if_err (DeleteFollow e a b) m"
  "logs (follow_request_step e a b m) = log_if_err (DeleteFollowRequest e a b) m"
  using logs_log_if_err
  by (simp_all add: wipe_step_def follow_step_def follow_request_step_def logs_def)

text \<open>
  Claim C5, as amended. For every Create-Block message whose model is a block, the
  handler makes all eight cleanup calls, in order and whatever each of them returns: the
  four timeline wipes (each account's posts from the other's home and list timelines) and
  the four deletions (follow and follow request, in both directions); the lines it logs
  are exactly the errors of the calls that failed; and it returns nil. A message whose
  model is not a block is rejected with an error before any call.
\<close>

theorem CreateBlock_steps_independent:
  "(GTSModel fMsg = Model_Block block \<longrightarrow>
      fst (CreateBlock e fMsg) = None \<and>
      calls (snd (CreateBlock e fMsg)) =
        [Call_WipeItemsFromAccountID Timelines_Home (Block_AccountID block) (Block_TargetAccountID block),
         Call_WipeItemsFromAccountID Timelines_Home (Block_TargetAccountID block) (Block_AccountID block),
         Call_WipeItemsFromAccountID Timelines_List (Block_AccountID block) (Block_TargetAccountID block),
         Call_WipeItemsFromAccountID Timelines_List (Block_TargetAccountID block) (Block_AccountID block),
         Call_DeleteFollow (Block_AccountID block) (Block_TargetAccountID block),
         Call_DeleteFollow (Block_TargetAccountID block) (Block_AccountID block),
         Call_DeleteFollowRequest (Block_AccountID block) (Block_TargetAccountID block),
         Call_DeleteFollowRequest (Block_TargetAccountID block) (Block_AccountID block)] \<and>
      logs (snd (CreateBlock e fMsg)) =
        log_if_err (WipeItemsFromAccountID e Timelines_Home (Block_AccountID block) (Block_TargetAccountID block))
          ''error wiping items from block -> target's home timeline: ''
        @ log_if_err (WipeItemsFromAccountID e Timelines_Home (Block_TargetAccountID block) (Block_AccountID block))
          ''error wiping items from target -> block's home timeline: ''
        @ log_if_err (WipeItemsFromAccountID e Timelines_List (Block_AccountID block) (Block_TargetAccountID block))
          ''error wiping items from block -> target's list timeline(s): ''
        @ log_if_err (WipeItemsFromAccountID e Timelines_List (Block_TargetAccountID block) (Block_AccountID block))
          ''error wiping items from target -> block's list timeline(s): ''
        @ log_if_err (DeleteFollow e (Block_AccountID block) (Block_TargetAccountID block))
          ''error deleting follow from block -> target: ''
        @ log_if_err (DeleteFollow e (Block_TargetAccountID block) (Block_AccountID block))
          ''error deleting follow from target -> block: ''
        @ log_if_err (DeleteFollowRequest e (Block_AccountID block) (Block_TargetAccountID block))
          ''error deleting follow request from block -> target: ''
        @ log_if_err (DeleteFollowRequest e (Block_TargetAccountID block) (Block_AccountID block))
          ''error deleting follow request from target -> block: '')
   \<and>
   ((\<forall>b. GTSModel fMsg \<noteq> Model_Block b) \<longrightarrow>
      CreateBlock e fMsg =
        (Some (gtserror_New ''workers.(*fediAPI).CreateBlock''
           (Model_type (GTSModel fMsg) @ '' not parseable as *gtsmodel.Block'')), []))"
proof (intro conjI impI)
  assume m: "GTSModel fMsg = Model_Block block"
  show "fst (CreateBlock e fMsg) = None" using m by (simp add: CreateBlock_def)
  show "calls (snd (CreateBlock e fMsg)) =
        [Call_WipeItemsFromAccountID Timelines_Home (Block_AccountID block) (Block_TargetAccountID block),
         Call_WipeItemsFromAccountID Timelines_Home (Block_TargetAccountID block) (Block_AccountID block),
         Call_WipeItemsFromAccountID Timelines_List (Block_AccountID block) (Block_TargetAccountID block),
         Call_WipeItemsFromAccountID Timelines_List (Block_TargetAccountID block) (Block_AccountID block),
         Call_DeleteFollow (Block_AccountID block) (Block_TargetAccountID block),
         Call_DeleteFollow (Block_TargetAccountID block) (Block_AccountID block),
         Call_DeleteFollowRequest (Block_AccountID block) (Block_TargetAccountID block),
         Call_DeleteFollowRequest (Block_TargetAccountID block) (Block_AccountID block)]"
    using m by (simp add: CreateBlock_def calls_append calls_steps)
  show "logs (snd (CreateBlock e fMsg)) =
        log_if_err (WipeItemsFromAccountID e Timelines_Home (Block_AccountID block) (Block_TargetAccountID block))
          ''error wiping items from block -> target's home timeline: ''
        @ log_if_err (WipeItemsFromAccountID e Timelines_Home (Block_TargetAccountID block) (Block_AccountID block))
          ''error wiping items from target -> block's home timeline: ''
        @ log_if_err (WipeItemsFromAccountID e Timelines_List (Block_AccountID block) (Block_TargetAccountID block))
          ''error wiping items from block -> target's list timeline(s): ''
        @ log_if_err (WipeItemsFromAccountID e Timelines_List (Block_TargetAccountID block) (Block_AccountID block))
          ''error wiping items from target -> block's list timeline(s): ''
        @ log_if_err (DeleteFollow e (Block_AccountID block) (Block_TargetAccountID block))
          ''error deleting follow from block -> target: ''
        @ log_if_err (DeleteFollow e (Block_TargetAccountID block) (Block_AccountID block))
          ''error deleting follow from target -> block: ''
        @ log_if_err (DeleteFollowRequest e (Block_AccountID block) (Block_TargetAccountID block))
          ''error deleting follow request from block -> target: ''
        @ log_if_err (DeleteFollowRequest e (Block_TargetAccountID block) (Block_AccountID block))
          ''error deleting follow request from target -> block: ''"
    using m by (simp add: CreateBlock_def logs_append logs_steps)
next
  assume "\<forall>b. GTSModel fMsg \<noteq> Model_Block b"
  then show "CreateBlock e fMsg =
        (Some (gtserror_New ''workers.(*fediAPI).CreateBlock''
           (Model_type (GTSModel fMsg) @ '' not parseable as *gtsmodel.Block'')), [])"
    by (cases "GTSModel fMsg") (simp_all add: CreateBlock_def)
qed

text \<open>
  The block of bob by alice when storage fails to delete the follow from alice to bob:
  all eight calls are made and the one failure is logged.
\<close>

theorem CreateBlock_steps_independent_witness:
  "GTSModel msg_block = Model_Block block_1 \<and>
   DeleteFollow env_follow_fails ''01ALICE'' ''01BOB'' = Some storage_error \<and>
   fst (CreateBlock env_follow_fails msg_block) = None \<and>
   calls (snd (CreateBlock env_follow_fails msg_block)) =
     [Call_WipeItemsFromAccountID Timelines_Home ''01ALICE'' ''01BOB'',
      Call_WipeItemsFromAccountID Timelines_Home ''01BOB'' ''01ALICE'',
      Call_WipeItemsFromAccountID Timelines_List ''01ALICE'' ''01BOB'',
      Call_WipeItemsFromAccountID Timelines_List ''01BOB'' ''01ALICE'',
      Call_DeleteFollow ''01ALICE'' ''01BOB'',
      Call_DeleteFollow ''01BOB'' ''01ALICE'',
      Call_DeleteFollowRequest ''01ALICE'' ''01BOB'',
      Call_DeleteFollowRequest ''01BOB'' ''01ALICE''] \<and>
   logs (snd (CreateBlock env_follow_fails msg_block)) =
     [Log_Error ''error deleting follow from block -> target: '' storage_error]"
proof -
  have m: "GTSModel msg_block = Model_Block block_1" by (simp add: msg_block_def)
  have d: "DeleteFollow env_follow_fails ''01ALICE'' ''01BOB'' = Some storage_error"
    by (simp add: env_follow_fails_def env_ok_def)
  note t = CreateBlock_steps_independent [where e = env_follow_fails and fMsg = msg_block
      and block = block_1, THEN conjunct1, THEN mp, OF m]
  have a: "fst (CreateBlock env_follow_fails msg_block) = None" using t by blast
  have b: "calls (snd (CreateBlock env_follow_fails msg_block)) =
     [Call_WipeItemsFromAccountID Timelines_Home ''01ALICE'' ''01BOB'',
      Call_WipeItemsFromAccountID Timelines_Home ''01BOB'' ''01ALICE'',
      Call_WipeItemsFromAccountID Timelines_List ''01ALICE'' ''01BOB'',
      Call_WipeItemsFromAccountID Timelines_List ''01BOB'' ''01ALICE'',
      Call_DeleteFollow ''01ALICE'' ''01BOB'',
      Call_DeleteFollow ''01BOB'' ''01ALICE'',
      Call_DeleteFollowRequest ''01ALICE'' ''01BOB'',
      Call_DeleteFollowRequest ''01BOB'' ''01ALICE'']"
    unfolding t [THEN conjunct2, THEN conjunct1] by (simp add: block_1_def)
  have c: "logs (snd (CreateBlock env_follow_fails msg_block)) =
     [Log_Error ''error deleting follow from block -> target: '' storage_error]"
    unfolding t [THEN conjunct2, THEN conjunct2]
    by (simp add: block_1_def env_follow_fails_def env_ok_def)
  show ?thesis using m d a b c by blast
qed

text \<open>
  A Create-Block message with no model: the handler returns an error and attempts
  nothing.
\<close>

theorem CreateBlock_steps_independent_counterexample:
  "APActivityType (msg_block\<lparr>GTSModel := Model_nil\<rparr>) = ActivityCreate \<and>
   APObjectType (msg_block\<lparr>GTSModel := Model_nil\<rparr>) = ActivityBlock \<and>
   CreateBlock env_ok (msg_block\<lparr>GTSModel := Model_nil\<rparr>) =
     (Some (Cerror ''workers.(*fediAPI).CreateBlock'' ''<nil> not parseable as *gtsmodel.Block'' None), [])"
  by (simp add: CreateBlock_def msg_block_def gtserror_New_def)

subsection \<open>The dispatch\<close>

lemmas tag_defs = ActivityCreate_def ActivityUpdate_def ActivityAccept_def ActivityDelete_def
  ActivityMove_def ActivityFollow_def ActivityLike_def ActivityAnnounce_def ActivityBlock_def
  ActivityFlag_def ActivityQuestion_def ObjectNote_def ActorPerson_def

text \<open>
  Claim C6. For every federation message, \<^verbatim>\<open>ProcessFromFediAPI\<close> logs its line and then: if
  the (activity type, object type) pair of the message is not in the routing table, it
  returns the error "unhandled: <activity type> <object type>" and calls no handler; if
  the pair is in the table, it calls the handler registered for it and returns what the
  handler returns.
\<close>

theorem dispatch_fails_closed:
  "ProcessFromFediAPI p fMsg =
     (case registered fMsg of
        None \<Rightarrow>
          (Some (Cerror ''workers.(*Processor).ProcessFromFediAPI''
             (''unhandled: '' @ APActivityType fMsg @ '' '' @ APObjectType fMsg) None),
           [processing_line])
      | Some h \<Rightarrow> (fst (h p fMsg), processing_line # snd (h p fMsg)))"
  unfolding ProcessFromFediAPI_def registered_def dispatch_table_def tag_defs
    unhandled_def run_handler_def gtserror_New_def
  by (simp add: split_beta)

text \<open>An Undo-Follow message has no handler; a Create-Block message goes to \<^verbatim>\<open>CreateBlock\<close>.\<close>

theorem dispatch_fails_closed_witness:
  "registered msg_undo = None \<and>
   ProcessFromFediAPI (fediAPI env_ok no_handlers) msg_undo =
     (Some (Cerror ''workers.(*Processor).ProcessFromFediAPI'' ''unhandled: Undo Follow'' None),
      [Log_Info ''processing from fedi API'']) \<and>
   registered msg_block = Some h_CreateBlock \<and>
   ProcessFromFediAPI (fediAPI env_ok no_handlers) msg_block =
     (None, Log_Info ''processing from fedi API'' # snd (CreateBlock env_ok msg_block))"
proof -
  have r1: "registered msg_undo = None"
    by (simp add: registered_def dispatch_table_def msg_undo_def msg_note_def)
  have r2: "registered msg_block = Some h_CreateBlock"
    by (simp add: registered_def dispatch_table_def msg_block_def tag_defs)
  have u: "ProcessFromFediAPI (fediAPI env_ok no_handlers) msg_undo =
     (Some (Cerror ''workers.(*Processor).ProcessFromFediAPI'' ''unhandled: Undo Follow'' None),
      [Log_Info ''processing from fedi API''])"
    unfolding dispatch_fails_closed [of "fediAPI env_ok no_handlers" msg_undo] r1
    by (simp add: msg_undo_def msg_note_def processing_line_def)
  have f: "fst (CreateBlock env_ok msg_block) = None"
    by (simp add: CreateBlock_def msg_block_def)
  have b: "ProcessFromFediAPI (fediAPI env_ok no_handlers) msg_block =
     (None, Log_Info ''processing from fedi API'' # snd (CreateBlock env_ok msg_block))"
    unfolding dispatch_fails_closed [of "fediAPI env_ok no_handlers" msg_block] r2
    by (simp add: fediAPI_def f processing_line_def)
  show ?thesis using r1 r2 u b by blast
qed

section \<open>The worker pool: errors are logged, never propagated\<close>

lemma worker_drain_all:
  "process w = Some fn \<Longrightarrow>
   worker_drain w msgs s =
     Some (s\<lparr>world := process_all fn msgs (world s),
             errors_logged := errors_logged s @ map (Pair (prefix w)) (errors_of fn msgs (world s))\<rparr>)"
proof (induction msgs arbitrary: s)
  case Nil
  then show ?case by simp
next
  case (Cons m msgs)
  obtain r x where f: "fn m (world s) = (r, x)" by (cases "fn m (world s)")
  show ?case
  proof (cases r)
    case None
    then show ?thesis using Cons f by (simp add: queued_closure_def)
  next
    case (Some err)
    then show ?thesis using Cons f by (simp add: queued_closure_def)
  qed
qed


lemma queue_foldl_Queue: "queue (foldl Queue w msgs) = queue w @ msgs"
  by (induction msgs arbitrary: w) (simp_all add: Queue_def)

lemma process_foldl_Queue: "process (foldl Queue w msgs) = process w"
  by (induction msgs arbitrary: w) (simp_all add: Queue_def)

text \<open>
  Claim C8. For every pool with a registered processor and every message, the closure
  that \<^verbatim>\<open>Queue\<close> enqueues runs the processor on the message and, if the processor returns an
  error, logs it under the pool's prefix; the closure itself returns nothing, so the
  error reaches no caller. Hence a worker draining the queue processes every queued
  message, in order, whatever errors the processor returns before: the world at the end
  is the world after all the messages, and the log holds the errors returned.
\<close>

theorem worker_logs_and_continues:
  assumes "process w = Some fn"
  shows "queued_closure w msg s =
           Some (s\<lparr>world := snd (fn msg (world s)),
                   errors_logged := errors_logged s @
                     (case fst (fn msg (world s)) of None \<Rightarrow> [] | Some err \<Rightarrow> [(prefix w, err)])\<rparr>) \<and>
         worker_drain w (queue (foldl Queue (w\<lparr>queue := []\<rparr>) msgs)) s =
           Some (s\<lparr>world := process_all fn msgs (world s),
                   errors_logged := errors_logged s @
                     map (Pair (prefix w)) (errors_of fn msgs (world s))\<rparr>)"
proof
  obtain r x where f: "fn msg (world s) = (r, x)" by (cases "fn msg (world s)")
  show "queued_closure w msg s =
           Some (s\<lparr>world := snd (fn msg (world s)),
                   errors_logged := errors_logged s @
                     (case fst (fn msg (world s)) of None \<Rightarrow> [] | Some err \<Rightarrow> [(prefix w, err)])\<rparr>)"
    using assms f by (cases r) (simp_all add: queued_closure_def)
  show "worker_drain w (queue (foldl Queue (w\<lparr>queue := []\<rparr>) msgs)) s =
           Some (s\<lparr>world := process_all fn msgs (world s),
                   errors_logged := errors_logged s @
                     map (Pair (prefix w)) (errors_of fn msgs (world s))\<rparr>)"
    using worker_drain_all [OF assms] by (simp add: queue_foldl_Queue)
qed

text \<open>Three messages, the second of which fails: all three are processed.\<close>

theorem worker_logs_and_continues_witness:
  "process pool_1 = Some failing_on_2 \<and>
   queue (foldl Queue pool_1 [1, 2, 3]) = [1, 2, 3] \<and>
   worker_drain pool_1 [1, 2, 3] \<lparr>world = [], errors_logged = []\<rparr> =
     Some \<lparr>world = [1, 2, 3],
           errors_logged = [(''worker.Worker[int]'', ErrorString ''cannot process 2'')]\<rparr>"
proof -
  have p: "process pool_1 = Some failing_on_2" by (simp add: pool_1_def)
  have q: "pool_1\<lparr>queue := []\<rparr> = pool_1" by (simp add: pool_1_def)
  have e: "queue (foldl Queue pool_1 [1, 2, 3]) = [1, 2, 3]"
    by (simp add: Queue_def pool_1_def)
  note t = worker_logs_and_continues [OF p, of 1 "\<lparr>world = [], errors_logged = []\<rparr>" "[1, 2, 3]",
      THEN conjunct2, unfolded q e]
  have "worker_drain pool_1 [1, 2, 3] \<lparr>world = [], errors_logged = []\<rparr> =
     Some \<lparr>world = [1, 2, 3],
           errors_logged = [(''worker.Worker[int]'', ErrorString ''cannot process 2'')]\<rparr>"
    unfolding t by (simp add: failing_on_2_def pool_1_def)
  then show ?thesis using p e by blast
qed

section \<open>The account cache: copies in, copies out\<close>


lemma severed_nil:
  "AvatarMediaAttachment (severed a) = None" "HeaderMediaAttachment (severed a) = None"
  by (simp_all add: severed_def)




















text \<open>
  Claim C10. \<^verbatim>\<open>AccountCache.Set\<close> panics with "invalid account" when the account is nil or
  has an empty ID or an empty URI, and \<^verbatim>\<open>NotificationCache.Put\<close> panics with "invalid
  notification" when the notification is nil or has an empty ID; nothing is stored then.
  For a non-nil value with its required keys non-empty neither of them panics.
\<close>

theorem cache_insert_panics:
  "(invalid_account h account \<longrightarrow>
      AccountCache_Set h c account now = Inl (Panic ''invalid account'')) \<and>
   (\<not> invalid_account h account \<longrightarrow>
      (\<exists>h' c'. AccountCache_Set h c account now = Inr (h', c'))) \<and>
   (invalid_notification hn notif \<longrightarrow>
      NotificationCache_Put hn cn notif = Inl (Panic ''invalid notification'')) \<and>
   (\<not> invalid_notification hn notif \<longrightarrow>
      (\<exists>h' c'. NotificationCache_Put hn cn notif = Inr (h', c')))"
  by (auto simp: invalid_account_def invalid_notification_def AccountCache_Set_def
      NotificationCache_Put_def Let_def split: option.splits prod.splits)

text \<open>A nil account, an account without ID, alice; a nil notification, a notification with ID.\<close>

theorem cache_insert_panics_witness:
  "invalid_account [nameless] None \<and>
   AccountCache_Set [nameless] NewAccount None 100 = Inl (Panic ''invalid account'') \<and>
   invalid_account [nameless] (Some 0) \<and>
   AccountCache_Set [nameless] NewAccount (Some 0) 100 = Inl (Panic ''invalid account'') \<and>
   \<not> invalid_account [alice] (Some 0) \<and>
   (\<exists>h' c'. AccountCache_Set [alice] NewAccount (Some 0) 100 = Inr (h', c')) \<and>
   invalid_notification [notification_1] None \<and>
   NotificationCache_Put [notification_1] Map.empty None = Inl (Panic ''invalid notification'') \<and>
   \<not> invalid_notification [notification_1] (Some 0) \<and>
   (\<exists>h' c'. NotificationCache_Put [notification_1] Map.empty (Some 0) = Inr (h', c'))"
proof -
  have i1: "invalid_account [nameless] None" by (simp add: invalid_account_def)
  have i2: "invalid_account [nameless] (Some 0)"
    by (simp add: invalid_account_def nameless_def)
  have i3: "\<not> invalid_account [alice] (Some 0)"
    by (simp add: invalid_account_def alice_def)
  have i4: "invalid_notification [notification_1] None" by (simp add: invalid_notification_def)
  have i5: "\<not> invalid_notification [notification_1] (Some 0)"
    by (simp add: invalid_notification_def notification_1_def)
  show ?thesis
    using i1 i2 i3 i4 i5
      cache_insert_panics [of "[nameless]" None NewAccount 100 "[notification_1]" None Map.empty]
      cache_insert_panics [of "[nameless]" "Some 0" NewAccount 100 "[notification_1]" "Some 0" Map.empty]
      cache_insert_panics [of "[alice]" "Some 0" NewAccount 100 "[notification_1]" "Some 0" Map.empty]
    by blast
qed

section \<open>The mute filter: the expiry is checked on every read\<close>

text \<open>
  The loader never leaves an expiry on a decision that is not a mute: the loop sets
  \<open>muteExpiry\<close> only in a round that also sets \<open>muted\<close>.
\<close>

lemma mutes_loop_expiry_muted:
  "mutes_loop now ms (m, e, n, ne) = Inr (m', e', n', ne') \<Longrightarrow>
   (\<not> IsZero e \<longrightarrow> m) \<Longrightarrow> (\<not> IsZero e' \<longrightarrow> m')"
proof (induction ms arbitrary: m e n ne)
  case Nil
  then show ?case by simp
next
  case (Cons mute rest)
  show ?case
  proof (cases "\<not> IsZero (ExpiresAt mute) \<and> Before (ExpiresAt mute) now")
    case True
    with Cons.prems have "mutes_loop now rest (m, e, n, ne) = Inr (m', e', n', ne')" by simp
    from Cons.IH [OF this Cons.prems(2)] show ?thesis .
  next
    case False
    let ?e = "if \<not> IsZero (ExpiresAt mute) \<and> After (ExpiresAt mute) e then ExpiresAt mute else e"
    have step: "mutes_loop now (mute # rest) (m, e, n, ne) =
        (case UserMute_Notifications mute of
           None \<Rightarrow> Inl (Panic ''invalid memory address or nil pointer dereference'')
         | Some True \<Rightarrow>
             mutes_loop now rest
               (True, ?e, True, if After (ExpiresAt mute) ne then ExpiresAt mute else ne)
         | Some False \<Rightarrow> mutes_loop now rest (True, ?e, n, ne))"
      by (simp only: mutes_loop.simps if_not_P [OF False] Let_def)
    note prem = Cons.prems(1) [unfolded step]
    show ?thesis
    proof (cases "UserMute_Notifications mute")
      case None
      with prem show ?thesis by simp
    next
      case (Some b)
      show ?thesis
      proof (cases b)
        case True
        with Some prem have
          "mutes_loop now rest (True, ?e, True,
             if After (ExpiresAt mute) ne then ExpiresAt mute else ne) = Inr (m', e', n', ne')"
          by simp
        from Cons.IH [OF this] show ?thesis by simp
      next
        case b: False
        with Some prem have
          "mutes_loop now rest (True, ?e, n, ne) = Inr (m', e', n', ne')"
          by simp
        from Cons.IH [OF this] show ?thesis by simp
      qed
    qed
  qed
qed

lemma load_mute_expiry_muted:
  assumes "load_mute db r status now = Inr (Inr d)"
  shows "\<not> IsZero (MuteExpiry d) \<longrightarrow> Mute d"
proof -
  from assms obtain tm ums m e n ne where
    l: "mutes_loop now ums (False, 0, tm, 0) = Inr (m, e, n, ne)"
    and d: "Mute d = m" "MuteExpiry d = e"
    by (auto simp: load_mute_def split: sum.splits prod.splits)
  from mutes_loop_expiry_muted [OF l] d show ?thesis by (simp add: IsZero_def)
qed

lemma StatusMuted_hit:
  assumes "c (mute_key r status) = Some d"
  shows "StatusMuted db c (Some r) status now =
     (Inr (Mute d \<and> (IsZero (MuteExpiry d) \<or> After (MuteExpiry d) now),
           Mute d \<and> \<not> IsZero (MuteExpiry d), None), c)"
  using assms
  by (simp add: StatusMuted_def getStatusMuteDetails_def LoadOne_def mute_key_def)

lemma StatusMuted_miss:
  assumes "c (mute_key r status) = None" "load_mute db r status now = Inr (Inr d)"
  shows "StatusMuted db c (Some r) status now =
     (Inr (Mute d \<and> (IsZero (MuteExpiry d) \<or> After (MuteExpiry d) now),
           Mute d \<and> \<not> IsZero (MuteExpiry d), None), c(mute_key r status \<mapsto> d))"
  using assms
  by (simp add: StatusMuted_def getStatusMuteDetails_def LoadOne_def mute_key_def)

lemma StatusMuted_muted_only_if:
  assumes "StatusMuted db c requester status now = (Inr (True, w, err), c')"
  shows "\<exists>r d. requester = Some r \<and> c' (mute_key r status) = Some d \<and> Mute d \<and>
           (IsZero (MuteExpiry d) \<or> After (MuteExpiry d) now)"
proof (cases requester)
  case None
  with assms show ?thesis
    by (simp add: StatusMuted_def getStatusMuteDetails_def zero_CachedMute_def)
next
  case (Some r)
  show ?thesis
  proof (cases "c (mute_key r status)")
    case hit: (Some d)
    from StatusMuted_hit [of c r status d db now] hit assms Some show ?thesis by auto
  next
    case miss: None
    show ?thesis
    proof (cases "load_mute db r status now")
      case (Inl p)
      with assms Some miss show ?thesis
        by (simp add: StatusMuted_def getStatusMuteDetails_def LoadOne_def mute_key_def)
    next
      case (Inr x)
      show ?thesis
      proof (cases x)
        case (Inl e)
        with Inr assms Some miss show ?thesis
          by (simp add: StatusMuted_def getStatusMuteDetails_def LoadOne_def mute_key_def)
      next
        case d: (Inr d)
        from StatusMuted_miss [of c r status db now d] miss Inr d assms Some show ?thesis by auto
      qed
    qed
  qed
qed

text \<open>
  Claim C9. For every cached mute decision \<open>d\<close> about a status for a requester,
  \<^verbatim>\<open>StatusMuted\<close> on a cache hit returns no error, leaves the cache as it is, and reports
  muted exactly when the \<^verbatim>\<open>Mute\<close> flag of \<open>d\<close> is set and its \<^verbatim>\<open>MuteExpiry\<close> is the zero
  time or after the current time; so on a hit on a mute whose expiry has passed it
  returns muted=false with withExpiry=true, whatever the time at which \<open>d\<close> was cached.
  Hit or miss, \<^verbatim>\<open>StatusMuted\<close> reports muted=true only if the decision in the cache
  afterwards has the flag set and an expiry that is zero or after the current time. A
  decision that the loader puts into the cache has the \<^verbatim>\<open>Mute\<close> flag set whenever it has
  an expiry that can pass.
\<close>

theorem StatusMuted_rechecks_expiry:
  "(c (mute_key r status) = Some d \<longrightarrow>
      StatusMuted db c (Some r) status now =
        (Inr (Mute d \<and> (IsZero (MuteExpiry d) \<or> After (MuteExpiry d) now),
              Mute d \<and> \<not> IsZero (MuteExpiry d), None), c)) \<and>
   (c (mute_key r status) = Some d \<and> Mute d \<and> MuteExpired d now \<longrightarrow>
      StatusMuted db c (Some r) status now = (Inr (False, True, None), c)) \<and>
   (StatusMuted db c requester status now = (Inr (True, w, err), c') \<longrightarrow>
      (\<exists>r' d'. requester = Some r' \<and> c' (mute_key r' status) = Some d' \<and> Mute d' \<and>
         (IsZero (MuteExpiry d') \<or> After (MuteExpiry d') now))) \<and>
   (c (mute_key r status) = None \<and> load_mute db r status now = Inr (Inr d) \<longrightarrow>
      snd (StatusMuted db c (Some r) status now) = c(mute_key r status \<mapsto> d) \<and>
      (MuteExpired d now' \<longrightarrow> Mute d))"
proof (intro conjI impI)
  assume "c (mute_key r status) = Some d"
  then show "StatusMuted db c (Some r) status now =
        (Inr (Mute d \<and> (IsZero (MuteExpiry d) \<or> After (MuteExpiry d) now),
              Mute d \<and> \<not> IsZero (MuteExpiry d), None), c)"
    by (rule StatusMuted_hit)
next
  assume a: "c (mute_key r status) = Some d \<and> Mute d \<and> MuteExpired d now"
  from StatusMuted_hit [of c r status d db now] a
  show "StatusMuted db c (Some r) status now = (Inr (False, True, None), c)"
    by (simp add: MuteExpired_def)
next
  assume "StatusMuted db c requester status now = (Inr (True, w, err), c')"
  then show "\<exists>r' d'. requester = Some r' \<and> c' (mute_key r' status) = Some d' \<and> Mute d' \<and>
         (IsZero (MuteExpiry d') \<or> After (MuteExpiry d') now)"
    by (rule StatusMuted_muted_only_if)
next
  assume a: "c (mute_key r status) = None \<and> load_mute db r status now = Inr (Inr d)"
  then show "snd (StatusMuted db c (Some r) status now) = c(mute_key r status \<mapsto> d)"
    using StatusMuted_miss [of c r status db now d] by simp
next
  assume a: "c (mute_key r status) = None \<and> load_mute db r status now = Inr (Inr d)"
    and e: "MuteExpired d now'"
  from a load_mute_expiry_muted [of db r status now d] e show "Mute d"
    by (simp add: MuteExpired_def)
qed


text \<open>
  Bob's mute against alice's status, cached with expiry 500: muted at time 100, not
  muted at time 1000, from the same cache entry; it is the entry the loader caches at
  time 100 from a store in which bob mutes alice until 500.
\<close>

theorem StatusMuted_rechecks_expiry_witness:
  "[mute_key bob status_1 \<mapsto> expired_mute] (mute_key bob status_1) = Some expired_mute \<and>
   Mute expired_mute \<and> MuteExpired expired_mute 1000 \<and>
   StatusMuted no_DB [mute_key bob status_1 \<mapsto> expired_mute] (Some bob) status_1 1000 =
     (Inr (False, True, None), [mute_key bob status_1 \<mapsto> expired_mute]) \<and>
   StatusMuted no_DB [mute_key bob status_1 \<mapsto> expired_mute] (Some bob) status_1 100 =
     (Inr (True, True, None), [mute_key bob status_1 \<mapsto> expired_mute]) \<and>
   Map.empty (mute_key bob status_1) = (None :: CachedMute option) \<and>
   load_mute muting_DB bob status_1 100 = Inr (Inr expired_mute) \<and>
   snd (StatusMuted muting_DB Map.empty (Some bob) status_1 100) =
     [mute_key bob status_1 \<mapsto> expired_mute]"
proof -
  let ?c = "[mute_key bob status_1 \<mapsto> expired_mute]"
  have h: "?c (mute_key bob status_1) = Some expired_mute" by simp
  have m: "Mute expired_mute" by (simp add: expired_mute_def)
  have x: "MuteExpired expired_mute 1000"
    by (simp add: MuteExpired_def expired_mute_def IsZero_def After_def)
  have e: "Map.empty (mute_key bob status_1) = (None :: CachedMute option)" by simp
  have l: "load_mute muting_DB bob status_1 100 = Inr (Inr expired_mute)"
    by (simp add: load_mute_def getStatusThreadMute_def getStatusRelatedUserMutes_def
        muting_DB_def bob_def status_1_def new_Status_def expired_mute_def
        IsZero_def Before_def After_def)
  note t1 = StatusMuted_rechecks_expiry [where c = ?c and r = bob and status = status_1
      and d = expired_mute and db = no_DB and now = 1000]
  have r1: "StatusMuted no_DB ?c (Some bob) status_1 1000 = (Inr (False, True, None), ?c)"
    using t1 [THEN conjunct2, THEN conjunct1] h m x by blast
  note t2 = StatusMuted_rechecks_expiry [where c = ?c and r = bob and status = status_1
      and d = expired_mute and db = no_DB and now = 100, THEN conjunct1, THEN mp, OF h]
  have r2: "StatusMuted no_DB ?c (Some bob) status_1 100 = (Inr (True, True, None), ?c)"
    unfolding t2 by (simp add: expired_mute_def IsZero_def After_def)
  note t3 = StatusMuted_rechecks_expiry [where c = Map.empty and r = bob and status = status_1
      and d = expired_mute and db = muting_DB and now = 100,
      THEN conjunct2, THEN conjunct2, THEN conjunct2, THEN mp, OF conjI [OF e l], THEN conjunct1]
  show ?thesis using h m x r1 r2 e l t3 by blast
qed

end
